theory Spec2Isabelle
  imports Main "HOL-Library.Sublist"
begin

section \<open>Text, JSON values and exceptions\<close>

text \<open>
  A Python \<open>str\<close> is a sequence of Unicode code points, so text is a list of code points
  (\<open>len\<close> and slicing count code points, and the templates of the source hold code points
  above 255). \<open>ustr\<close> turns an ASCII literal into such a text. Character classes
  (\<open>isdigit\<close>, decimal value, \<open>lower\<close>) are written out for ASCII; a code point outside
  ASCII counts as a caseless non-digit.
\<close>

type_synonym pystr = "nat list"

definition ustr :: "string \<Rightarrow> pystr" where
  "ustr s = map of_char s"

definition uc :: "char \<Rightarrow> nat" where
  "uc c = of_char c"

text \<open>
  The value \<open>json.loads\<close> and \<open>response.json()\<close> build: \<open>None\<close>, \<open>bool\<close>, \<open>int\<close>
  (unbounded), \<open>float\<close>, \<open>str\<close>, \<open>list\<close> and \<open>dict\<close> with text keys, the items in
  insertion order. Floats of the data are of a type \<open>'f\<close> that the model does not look
  into; what the interpreter computes on them is taken from \<open>builtins\<close> below.
\<close>

datatype 'f json =
    JNull
  | JBool bool
  | JInt int
  | JFloat 'f
  | JStr pystr
  | JList "'f json list"
  | JDict "(pystr \<times> 'f json) list"

datatype exc_class =
    PlainException | ValueError | KeyError | IndexError | TypeError | AttributeError
  | OverflowError | ConnectionError | RequestException | RequestsJSONDecodeError
  | JSONDecodeError | ParseError

text \<open>An exception object: its class and \<open>str(e)\<close>.\<close>

datatype exn = Exn exc_class pystr

fun exn_class :: "exn \<Rightarrow> exc_class" where
  "exn_class (Exn c m) = c"

fun exn_str :: "exn \<Rightarrow> pystr" where
  "exn_str (Exn c m) = m"

text \<open>
  What the interpreter and its library compute and the source only calls: operations on
  floats of the data, \<open>repr\<close> of a text, whether \<open>float(s)\<close> accepts a text, and the message of
  the \<open>TypeError\<close> that \<open>min\<close>, \<open>max\<close> or \<open>sum\<close> raise on a list holding a non-number.
\<close>

datatype 'f num = NInt int | NFloat 'f

record 'f builtins =
  float_str :: "'f \<Rightarrow> pystr"
  float_truth :: "'f \<Rightarrow> bool"
  float_lt :: "'f num \<Rightarrow> 'f num \<Rightarrow> bool"
  float_sum :: "'f num list \<Rightarrow> exn + 'f"
  float_mean_1f :: "'f \<Rightarrow> nat \<Rightarrow> pystr"
  str_repr :: "pystr \<Rightarrow> pystr"
  str_is_float :: "pystr \<Rightarrow> bool"
  stats_type_error :: "'f json list \<Rightarrow> pystr"

subsection \<open>String operations\<close>

fun starts_with :: "pystr \<Rightarrow> pystr \<Rightarrow> bool" where
  "starts_with [] s = True"
| "starts_with (p # ps) [] = False"
| "starts_with (p # ps) (x # xs) = (p = x \<and> starts_with ps xs)"

text \<open>\<open>contains p s\<close> is Python's \<open>p in s\<close> on two texts.\<close>

fun contains :: "pystr \<Rightarrow> pystr \<Rightarrow> bool" where
  "contains p [] = (p = [])"
| "contains p (x # xs) = (starts_with p (x # xs) \<or> contains p xs)"

text \<open>\<open>s.split(c)\<close> for a one-character separator: every occurrence splits.\<close>

fun split_on :: "nat \<Rightarrow> pystr \<Rightarrow> pystr list" where
  "split_on c [] = [[]]"
| "split_on c (x # xs) =
     (if x = c then [] # split_on c xs
      else (case split_on c xs of [] \<Rightarrow> [[x]] | p # ps \<Rightarrow> (x # p) # ps))"

text \<open>\<open>s.split(c, 1)\<close> when \<open>c\<close> occurs in \<open>s\<close>: the text before and after the first one.\<close>

definition split_first :: "nat \<Rightarrow> pystr \<Rightarrow> pystr \<times> pystr" where
  "split_first c s = (takeWhile (\<lambda>x. x \<noteq> c) s, drop 1 (dropWhile (\<lambda>x. x \<noteq> c) s))"

definition rstrip_char :: "nat \<Rightarrow> pystr \<Rightarrow> pystr" where
  "rstrip_char c s = rev (dropWhile (\<lambda>x. x = c) (rev s))"

definition is_space :: "nat \<Rightarrow> bool" where
  "is_space c \<longleftrightarrow>
     (9 \<le> c \<and> c \<le> 13) \<or> (28 \<le> c \<and> c \<le> 32) \<or> c = 133 \<or> c = 160 \<or> c = 5760
     \<or> (8192 \<le> c \<and> c \<le> 8202) \<or> c = 8232 \<or> c = 8233 \<or> c = 8239 \<or> c = 8287
     \<or> c = 12288"

definition strip :: "pystr \<Rightarrow> pystr" where
  "strip s = rev (dropWhile is_space (rev (dropWhile is_space s)))"

definition is_ascii_digit :: "nat \<Rightarrow> bool" where
  "is_ascii_digit c \<longleftrightarrow> 48 \<le> c \<and> c \<le> 57"

definition isdigit :: "pystr \<Rightarrow> bool" where
  "isdigit s \<longleftrightarrow> s \<noteq> [] \<and> list_all is_ascii_digit s"

definition lower_char :: "nat \<Rightarrow> nat" where
  "lower_char c = (if 65 \<le> c \<and> c \<le> 90 then c + 32 else c)"

definition lower :: "pystr \<Rightarrow> pystr" where
  "lower s = map lower_char s"

text \<open>
  \<open>int(s)\<close> in base 10: surrounding whitespace, an optional sign, then digits, where one
  underscore may stand between two digits. \<open>None\<close> is the \<open>ValueError\<close>.
\<close>

fun digits_value :: "nat \<Rightarrow> pystr \<Rightarrow> nat option" where
  "digits_value acc [] = Some acc"
| "digits_value acc [c] =
     (if is_ascii_digit c then Some (acc * 10 + (c - 48)) else None)"
| "digits_value acc (c # d # ds) =
     (if is_ascii_digit c then
        (if d = 95 then
           (case ds of [] \<Rightarrow> None
            | e # es \<Rightarrow> if is_ascii_digit e then digits_value (acc * 10 + (c - 48)) ds else None)
         else digits_value (acc * 10 + (c - 48)) (d # ds))
      else None)"

definition parse_int :: "pystr \<Rightarrow> int option" where
  "parse_int s =
     (case strip s of
        [] \<Rightarrow> None
      | c # cs \<Rightarrow>
          if c = 45 then (if cs = [] then None else map_option (\<lambda>n. - int n) (digits_value 0 cs))
          else if c = 43 then (if cs = [] then None else map_option int (digits_value 0 cs))
          else map_option int (digits_value 0 (c # cs)))"

text \<open>\<open>str(n)\<close> of an integer.\<close>

fun nat_digits :: "nat \<Rightarrow> pystr" where
  "nat_digits n = (if n < 10 then [48 + n] else nat_digits (n div 10) @ [48 + n mod 10])"

declare nat_digits.simps [simp del]

definition int_str :: "int \<Rightarrow> pystr" where
  "int_str i = (if i < 0 then 45 # nat_digits (nat (- i)) else nat_digits (nat i))"

subsection \<open>Dictionaries\<close>

text \<open>
  A \<open>dict\<close> is the list of its items in insertion order; a dictionary of the interpreter
  holds each key once. \<open>dict_get\<close> is \<open>d.get(k)\<close> with \<open>None\<close> as Isabelle's \<open>None\<close>,
  \<open>dict_set\<close> is \<open>d[k] = v\<close>.
\<close>

definition dict_get :: "(pystr \<times> 'a) list \<Rightarrow> pystr \<Rightarrow> 'a option" where
  "dict_get d k = map_of d k"

definition dict_has :: "(pystr \<times> 'a) list \<Rightarrow> pystr \<Rightarrow> bool" where
  "dict_has d k \<longleftrightarrow> k \<in> set (map fst d)"

fun dict_set :: "(pystr \<times> 'a) list \<Rightarrow> pystr \<Rightarrow> 'a \<Rightarrow> (pystr \<times> 'a) list" where
  "dict_set [] k v = [(k, v)]"
| "dict_set ((k', v') # d) k v = (if k' = k then (k, v) # d else (k', v') # dict_set d k v)"

section \<open>The path resolver\<close>

text \<open>
  The name of the type of a value, as the messages of the interpreter's own exceptions show
  it. These messages are worded as CPython 3.11 words them; no statement below reads them.
\<close>

definition type_name :: "'f json \<Rightarrow> pystr" where
  "type_name v =
     (case v of
        JNull \<Rightarrow> ustr ''NoneType''
      | JBool b \<Rightarrow> ustr ''bool''
      | JInt i \<Rightarrow> ustr ''int''
      | JFloat x \<Rightarrow> ustr ''float''
      | JStr s \<Rightarrow> ustr ''str''
      | JList xs \<Rightarrow> ustr ''list''
      | JDict d \<Rightarrow> ustr ''dict'')"

definition not_subscriptable :: "'f json \<Rightarrow> exn" where
  "not_subscriptable v = Exn TypeError ([39] @ type_name v @ [39] @ ustr '' object is not subscriptable'')"

text \<open>
  \<open>current[key]\<close> with a text key: a dictionary answers or raises \<open>KeyError\<close>, any other
  value raises \<open>TypeError\<close>.
\<close>

definition subscript_key :: "'f builtins \<Rightarrow> 'f json \<Rightarrow> pystr \<Rightarrow> exn + 'f json" where
  "subscript_key py cur k =
     (case cur of
        JDict d \<Rightarrow> (case dict_get d k of Some v \<Rightarrow> Inr v | None \<Rightarrow> Inl (Exn KeyError (str_repr py k)))
      | JList xs \<Rightarrow> Inl (Exn TypeError (ustr ''list indices must be integers or slices, not str''))
      | JStr s \<Rightarrow> Inl (Exn TypeError (ustr ''string indices must be integers, not '' @ [39] @ ustr ''str'' @ [39]))
      | _ \<Rightarrow> Inl (not_subscriptable cur))"

text \<open>
  \<open>xs[i]\<close> on a sequence of length \<open>n\<close>: a negative index counts from the end, an index
  outside \<open>-n \<le> i < n\<close> is the \<open>IndexError\<close> (\<open>None\<close> here).
\<close>

definition seq_index :: "'a list \<Rightarrow> int \<Rightarrow> 'a option" where
  "seq_index xs i =
     (if 0 \<le> i \<and> i < int (length xs) then Some (xs ! nat i)
      else if i < 0 \<and> - int (length xs) \<le> i then Some (xs ! nat (int (length xs) + i))
      else None)"

text \<open>
  \<open>current[index]\<close> with an integer index: a list and a text are indexed, a dictionary has no
  integer key and raises \<open>KeyError\<close>, any other value raises \<open>TypeError\<close>.
\<close>

definition subscript_index :: "'f json \<Rightarrow> int \<Rightarrow> exn + 'f json" where
  "subscript_index cur i =
     (case cur of
        JList xs \<Rightarrow> (case seq_index xs i of Some v \<Rightarrow> Inr v
                     | None \<Rightarrow> Inl (Exn IndexError (ustr ''list index out of range'')))
      | JStr s \<Rightarrow> (case seq_index s i of Some c \<Rightarrow> Inr (JStr [c])
                   | None \<Rightarrow> Inl (Exn IndexError (ustr ''string index out of range'')))
      | JDict d \<Rightarrow> Inl (Exn KeyError (int_str i))
      | _ \<Rightarrow> Inl (not_subscriptable cur))"

definition invalid_index :: "pystr \<Rightarrow> exn" where
  "invalid_index index_str = Exn ValueError (ustr ''Invalid array index: '' @ index_str)"

text \<open>One round of the loop over the parts of the path; the part is not empty.\<close>

definition path_step :: "'f builtins \<Rightarrow> 'f json \<Rightarrow> pystr \<Rightarrow> exn + 'f json" where
  "path_step py current part =
     (if uc CHR ''['' \<in> set part \<and> uc CHR '']'' \<in> set part then
        (let (array_name, bracket_part) = split_first (uc CHR ''['') part;
             index_str = rstrip_char (uc CHR '']'') bracket_part
         in case (if array_name \<noteq> [] then subscript_key py current array_name else Inr current) of
              Inl e \<Rightarrow> Inl e
            | Inr cur \<Rightarrow>
               (case parse_int index_str of
                  None \<Rightarrow> Inl (invalid_index index_str)
                | Some index \<Rightarrow>
                   (case subscript_index cur index of
                      Inr v \<Rightarrow> Inr v
                    | Inl e \<Rightarrow>
                       if exn_class e \<in> {ValueError, IndexError, TypeError}
                       then Inl (invalid_index index_str) else Inl e)))
      else
        (case current of
           JDict d \<Rightarrow> subscript_key py current part
         | _ \<Rightarrow> Inl (Exn ValueError
                  (ustr ''Cannot access '' @ [39] @ part @ [39] @ ustr '' on non-dict type''))))"

fun path_loop :: "'f builtins \<Rightarrow> 'f json \<Rightarrow> pystr list \<Rightarrow> exn + 'f json" where
  "path_loop py current [] = Inr current"
| "path_loop py current (part # parts) =
     (if part = [] then path_loop py current parts
      else (case path_step py current part of
              Inl e \<Rightarrow> Inl e
            | Inr cur \<Rightarrow> path_loop py cur parts))"

definition is_dict :: "'f json \<Rightarrow> bool" where
  "is_dict v = (case v of JDict d \<Rightarrow> True | _ \<Rightarrow> False)"

definition json_has_key :: "'f json \<Rightarrow> pystr \<Rightarrow> bool" where
  "json_has_key v k = (case v of JDict d \<Rightarrow> dict_has d k | _ \<Rightarrow> False)"

definition extract_json_path :: "'f builtins \<Rightarrow> 'f json \<Rightarrow> pystr \<Rightarrow> exn + 'f json" where
  "extract_json_path py data path =
     (if path = [] then Inr data
      else if uc CHR ''.'' \<notin> set path \<and> uc CHR ''['' \<notin> set path \<and> uc CHR '']'' \<notin> set path then
        (if json_has_key data path then subscript_key py data path
         else if isdigit path then Inr (JStr path)
         else if str_is_float py path then Inr (JStr path)
         else (case data of
                 JDict d \<Rightarrow> Inr (case dict_get d path of Some v \<Rightarrow> v | None \<Rightarrow> JNull)
               | _ \<Rightarrow> path_loop py data (split_on (uc CHR ''.'') path)))
      else path_loop py data (split_on (uc CHR ''.'') path))"

section \<open>The mapping applier\<close>

text \<open>
  The mapping table is a dictionary from field names to path texts. A path whose
  resolution raises gives \<open>None\<close> for its field (the warning written to standard error is
  not part of the result).
\<close>

fun mapping_loop ::
  "'f builtins \<Rightarrow> 'f json \<Rightarrow> (pystr \<times> pystr) list \<Rightarrow> (pystr \<times> 'f json) list
    \<Rightarrow> (pystr \<times> 'f json) list" where
  "mapping_loop py api_data [] mapped_data = mapped_data"
| "mapping_loop py api_data ((field_name, json_path) # rest) mapped_data =
     mapping_loop py api_data rest
       (dict_set mapped_data field_name
          (case extract_json_path py api_data json_path of Inr value \<Rightarrow> value | Inl e \<Rightarrow> JNull))"

definition apply_data_mapping ::
  "'f builtins \<Rightarrow> (pystr \<times> pystr) list \<Rightarrow> 'f json \<Rightarrow> (pystr \<times> 'f json) list" where
  "apply_data_mapping py data_mapping api_data = mapping_loop py api_data data_mapping []"

section \<open>Values as the templates read them\<close>

text \<open>\<open>html.escape(s)\<close> with its default \<open>quote=True\<close>.\<close>

definition escape_char :: "nat \<Rightarrow> pystr" where
  \<open>escape_char c =
     (if c = uc CHR ''&'' then ustr ''&amp;''
      else if c = uc CHR ''<'' then ustr ''&lt;''
      else if c = uc CHR ''>'' then ustr ''&gt;''
      else if c = uc CHR 0x22 then ustr ''&quot;''
      else if c = uc CHR 0x27 then ustr ''&#x27;''
      else [c])\<close>

definition html_escape :: "pystr \<Rightarrow> pystr" where
  "html_escape s = concat (map escape_char s)"

text \<open>The characters that \<open>html.escape\<close> replaces: \<open>&\<close>, \<open><\<close>, \<open>>\<close> and the two quotes.\<close>

definition html_special :: "nat \<Rightarrow> bool" where
  "html_special c \<longleftrightarrow> c \<in> {38, 60, 62, 34, 39}"

text \<open>\<open>sep.join(xs)\<close>.\<close>

fun join :: "pystr \<Rightarrow> pystr list \<Rightarrow> pystr" where
  "join sep [] = []"
| "join sep [x] = x"
| "join sep (x # y # ys) = x @ sep @ join sep (y # ys)"

text \<open>
  \<open>repr(v)\<close> and \<open>str(v)\<close>. They differ on a text only: \<open>str\<close> of a text is the text, and the
  text inside a list or a dictionary is shown by \<open>repr\<close>.
\<close>

fun py_repr :: "'f builtins \<Rightarrow> 'f json \<Rightarrow> pystr" where
  "py_repr py JNull = ustr ''None''"
| "py_repr py (JBool b) = (if b then ustr ''True'' else ustr ''False'')"
| "py_repr py (JInt i) = int_str i"
| "py_repr py (JFloat x) = float_str py x"
| "py_repr py (JStr s) = str_repr py s"
| "py_repr py (JList xs) = ustr ''['' @ join (ustr '', '') (map (py_repr py) xs) @ ustr '']''"
| "py_repr py (JDict d) =
     ustr ''{'' @ join (ustr '', '') (map (\<lambda>kv. str_repr py (fst kv) @ ustr '': '' @ py_repr py (snd kv)) d)
     @ ustr ''}''"

definition py_str :: "'f builtins \<Rightarrow> 'f json \<Rightarrow> pystr" where
  "py_str py v = (case v of JStr s \<Rightarrow> s | _ \<Rightarrow> py_repr py v)"

definition safe_str :: "'f builtins \<Rightarrow> 'f json \<Rightarrow> pystr" where
  "safe_str py v = (case v of JNull \<Rightarrow> [] | _ \<Rightarrow> py_str py v)"

text \<open>The truth value of a value, as \<open>if v\<close> reads it.\<close>

definition truthy :: "'f builtins \<Rightarrow> 'f json \<Rightarrow> bool" where
  "truthy py v =
     (case v of
        JNull \<Rightarrow> False
      | JBool b \<Rightarrow> b
      | JInt i \<Rightarrow> i \<noteq> 0
      | JFloat x \<Rightarrow> float_truth py x
      | JStr s \<Rightarrow> s \<noteq> []
      | JList xs \<Rightarrow> xs \<noteq> []
      | JDict d \<Rightarrow> d \<noteq> [])"

text \<open>\<open>data.get(key, default)\<close>: the default stands in for an absent key only.\<close>

definition get_or :: "(pystr \<times> 'f json) list \<Rightarrow> pystr \<Rightarrow> 'f json \<Rightarrow> 'f json" where
  "get_or d k dflt = (case dict_get d k of Some v \<Rightarrow> v | None \<Rightarrow> dflt)"

text \<open>
  The results of the rounds of a loop whose body is wrapped in \<open>try\<close> / \<open>except Exception\<close>
  and appends to a list: a round that raises appends nothing.
\<close>

fun collect :: "(exn + 'a) list \<Rightarrow> 'a list" where
  "collect [] = []"
| "collect (Inl e # rs) = collect rs"
| "collect (Inr x # rs) = x # collect rs"

text \<open>
  The templates pass a value of the mapped data as the path. A text is resolved as above.
  Of the other values, a false one (\<open>None\<close>, \<open>False\<close>, zero, an empty list or dictionary) gives
  the data back at \<open>if not path\<close>; a true one raises: a number at \<open>'.' not in path\<close>, a list
  or a dictionary at \<open>path.split\<close>, at \<open>path in data\<close> or at \<open>path.isdigit\<close>.
\<close>

definition holds_bracket_or_dot :: "'f json \<Rightarrow> bool" where
  "holds_bracket_or_dot path =
     (case path of
        JList xs \<Rightarrow> JStr (ustr ''.'') \<in> set xs \<or> JStr (ustr ''['') \<in> set xs \<or> JStr (ustr '']'') \<in> set xs
      | JDict d \<Rightarrow> dict_has d (ustr ''.'') \<or> dict_has d (ustr ''['') \<or> dict_has d (ustr '']'')
      | _ \<Rightarrow> False)"

definition no_attribute :: "'f json \<Rightarrow> string \<Rightarrow> exn" where
  "no_attribute v a =
     Exn AttributeError ([39] @ type_name v @ [39] @ ustr '' object has no attribute '' @ [39] @ ustr a @ [39])"

definition unhashable :: "'f json \<Rightarrow> exn" where
  "unhashable v = Exn TypeError (ustr ''unhashable type: '' @ [39] @ type_name v @ [39])"

definition not_iterable :: "'f json \<Rightarrow> exn" where
  "not_iterable v =
     Exn TypeError (ustr ''argument of type '' @ [39] @ type_name v @ [39] @ ustr '' is not iterable'')"

definition container_path_error :: "'f json \<Rightarrow> 'f json \<Rightarrow> exn" where
  "container_path_error data path =
     (if holds_bracket_or_dot path then no_attribute path ''split''
      else if is_dict data then unhashable path
      else no_attribute path ''isdigit'')"

definition extract_path_value :: "'f builtins \<Rightarrow> 'f json \<Rightarrow> 'f json \<Rightarrow> exn + 'f json" where
  "extract_path_value py data path =
     (case path of
        JStr p \<Rightarrow> extract_json_path py data p
      | JList xs \<Rightarrow> if xs = [] then Inr data else Inl (container_path_error data path)
      | JDict d \<Rightarrow> if d = [] then Inr data else Inl (container_path_error data path)
      | _ \<Rightarrow> if \<not> truthy py path then Inr data else Inl (not_iterable path))"

text \<open>\<open>len(v)\<close>: a list, a dictionary and a text have a length, any other value raises.\<close>

definition py_len :: "'f json \<Rightarrow> exn + nat" where
  "py_len v =
     (case v of
        JList xs \<Rightarrow> Inr (length xs)
      | JDict d \<Rightarrow> Inr (length d)
      | JStr s \<Rightarrow> Inr (length s)
      | _ \<Rightarrow> Inl (Exn TypeError
               (ustr ''object of type '' @ [39] @ type_name v @ [39] @ ustr '' has no len()'')))"

subsection \<open>Numbers of the chart\<close>

text \<open>
  \<open>min\<close>, \<open>max\<close> and \<open>sum\<close> on the data points. A \<open>bool\<close> counts as the integer 0 or 1.
  Integers are compared and added exactly; a comparison with a float is the interpreter's.
\<close>

definition as_num :: "'f json \<Rightarrow> 'f num option" where
  "as_num v =
     (case v of
        JInt i \<Rightarrow> Some (NInt i)
      | JBool b \<Rightarrow> Some (NInt (if b then 1 else 0))
      | JFloat x \<Rightarrow> Some (NFloat x)
      | _ \<Rightarrow> None)"

definition is_number :: "'f json \<Rightarrow> bool" where
  "is_number v \<longleftrightarrow> as_num v \<noteq> None"

definition num_lt :: "'f builtins \<Rightarrow> 'f num \<Rightarrow> 'f num \<Rightarrow> bool" where
  "num_lt py a b =
     (case (a, b) of (NInt x, NInt y) \<Rightarrow> x < y | _ \<Rightarrow> float_lt py a b)"

definition json_lt :: "'f builtins \<Rightarrow> 'f json \<Rightarrow> 'f json \<Rightarrow> bool" where
  "json_lt py v w = num_lt py (the (as_num v)) (the (as_num w))"

text \<open>
  On a list of numbers that is not empty: \<open>min\<close> keeps the first item until a later one is
  smaller, \<open>max\<close> until a later one is greater.
\<close>

definition py_min :: "'f builtins \<Rightarrow> 'f json list \<Rightarrow> 'f json" where
  "py_min py xs = foldl (\<lambda>cur item. if json_lt py item cur then item else cur) (hd xs) (tl xs)"

definition py_max :: "'f builtins \<Rightarrow> 'f json list \<Rightarrow> 'f json" where
  "py_max py xs = foldl (\<lambda>cur item. if json_lt py cur item then item else cur) (hd xs) (tl xs)"

definition is_int_num :: "'f num \<Rightarrow> bool" where
  "is_int_num n = (case n of NInt i \<Rightarrow> True | NFloat x \<Rightarrow> False)"

definition int_of_num :: "'f num \<Rightarrow> int" where
  "int_of_num n = (case n of NInt i \<Rightarrow> i | NFloat x \<Rightarrow> 0)"

text \<open>
  \<open>a / b\<close> on integers with \<open>b > 0\<close> is the double nearest to the quotient, ties to the even
  significand, and raises \<open>OverflowError\<close> when that is \<open>2 ^ 1024\<close> or more, which is when the
  quotient reaches \<open>2 ^ 1024 - 2 ^ 970\<close>, half a last bit above the greatest double. The double
  is kept as its sign and its magnitude \<open>m * 2 ^ q\<close>, with \<open>q\<close> the exponent of the last bit of
  the significand (53 bits, and not below \<open>2 ^ -1074\<close>).
\<close>

fun bit_length :: "nat \<Rightarrow> nat" where
  "bit_length n = (if n = 0 then 0 else Suc (bit_length (n div 2)))"

declare bit_length.simps [simp del]

definition round_half_even :: "nat \<Rightarrow> nat \<Rightarrow> nat" where
  "round_half_even a b =
     (let q = a div b; r = a mod b
      in if 2 * r < b then q else if b < 2 * r then q + 1 else if even q then q else q + 1)"

text \<open>\<open>floor_log2 a b\<close> is the \<open>e\<close> with \<open>2 ^ e \<le> a / b < 2 ^ (e + 1)\<close>, for positive \<open>a\<close> and \<open>b\<close>.\<close>

definition floor_log2 :: "nat \<Rightarrow> nat \<Rightarrow> int" where
  "floor_log2 a b =
     (let d = int (bit_length a) - int (bit_length b)
      in if (if 0 \<le> d then b * 2 ^ nat d \<le> a else b \<le> a * 2 ^ nat (- d)) then d else d - 1)"

record pydouble =
  negative :: bool
  significand :: nat
  exponent :: int

definition nearest_double :: "nat \<Rightarrow> nat \<Rightarrow> nat \<times> int" where
  "nearest_double a b =
     (if a = 0 then (0, 0)
      else let q = max (floor_log2 a b) (- 1022) - 52
           in (if 0 \<le> q then round_half_even a (b * 2 ^ nat q)
               else round_half_even (a * 2 ^ nat (- q)) b, q))"

definition int_truediv :: "int \<Rightarrow> nat \<Rightarrow> exn + pydouble" where
  "int_truediv a b =
     (if (2 ^ 1024 - 2 ^ 970) * b \<le> nat \<bar>a\<bar>
      then Inl (Exn OverflowError (ustr ''integer division result too large for a float''))
      else (let (m, q) = nearest_double (nat \<bar>a\<bar>) b
            in Inr \<lparr>negative = a < 0, significand = m, exponent = q\<rparr>))"

text \<open>
  \<open>format(x, '.1f')\<close>: the decimal with one digit after the point nearest to the double, ties
  to the even digit, with the sign of the double (so a small negative number reads \<open>-0.0\<close>).
\<close>

definition format_1f :: "pydouble \<Rightarrow> pystr" where
  "format_1f x =
     (let t = (if 0 \<le> exponent x then significand x * 2 ^ nat (exponent x) * 10
               else round_half_even (significand x * 10) (2 ^ nat (- exponent x)))
      in (if negative x then ustr ''-'' else []) @ nat_digits (t div 10) @ ustr ''.'' @ [48 + t mod 10])"

text \<open>
  The mean of the data points as \<open>f"{sum(xs) / len(xs):.1f}"\<close> gives it. Integers are summed
  exactly; with a float among the numbers the sum and the quotient are the interpreter's.
\<close>

definition mean_1f :: "'f builtins \<Rightarrow> 'f json list \<Rightarrow> exn + pystr" where
  "mean_1f py xs =
     (let ns = map (\<lambda>v. the (as_num v)) xs
      in if list_all is_int_num ns then
           (case int_truediv (sum_list (map int_of_num ns)) (length xs) of
              Inl e \<Rightarrow> Inl e
            | Inr x \<Rightarrow> Inr (format_1f x))
         else
           (case float_sum py ns of
              Inl e \<Rightarrow> Inl e
            | Inr s \<Rightarrow> Inr (float_mean_1f py s (length xs))))"

text \<open>
  The three statistics of a list that is not empty. With an item that is no number, \<open>min\<close>,
  \<open>max\<close> or, at the latest, \<open>sum\<close> (which starts from \<open>0 + item\<close>) raises \<open>TypeError\<close>.
\<close>

definition chart_stats :: "'f builtins \<Rightarrow> 'f json list \<Rightarrow> exn + ('f json \<times> 'f json \<times> pystr)" where
  "chart_stats py xs =
     (if list_all is_number xs then
        (case mean_1f py xs of
           Inl e \<Rightarrow> Inl e
         | Inr avg \<Rightarrow> Inr (py_min py xs, py_max py xs, avg))
      else Inl (Exn TypeError (stats_type_error py xs)))"

section \<open>The templates\<close>

text \<open>
  Each template reads the mapped data, a dictionary, and gives the fragment. The text of
  the fragments is the text of the source, line by line. \<open>render_error\<close> is the error fragment.
\<close>

definition render_error :: "pystr \<Rightarrow> pystr" where
  \<open>render_error message =
     ustr ''\<newline>        <div class="widget-error">''
     @ ustr ''\<newline>            <div class="error-icon">''
     @ [8218, 246, 8224, 212, 8719, 232]
     @ ustr ''</div>''
     @ ustr ''\<newline>            <div class="error-message">''
     @ html_escape message
     @ ustr ''</div>''
     @ ustr ''\<newline>        </div>''
     @ ustr ''\<newline>        ''\<close>

definition render_key_value :: "'f builtins \<Rightarrow> (pystr \<times> 'f json) list \<Rightarrow> pystr" where
  \<open>render_key_value py data =
     (let title = safe_str py (get_or data (ustr ''title'') (JStr (ustr ''Value'')));
          value = safe_str py (get_or data (ustr ''value'') (JStr (ustr ''N/A'')));
          unit = safe_str py (get_or data (ustr ''unit'') (JStr []))
      in ustr ''\<newline>        <div class="widget-content">''
         @ ustr ''\<newline>            <div class="value-display text-center">''
         @ ustr ''\<newline>                <div class="label mb-sm">''
         @ html_escape title
         @ ustr ''</div>''
         @ ustr ''\<newline>                <div class="value value--large">''
         @ html_escape value
         @ html_escape unit
         @ ustr ''</div>''
         @ ustr ''\<newline>            </div>''
         @ ustr ''\<newline>        </div>''
         @ ustr ''\<newline>        '')\<close>

definition render_title_subtitle_value :: "'f builtins \<Rightarrow> (pystr \<times> 'f json) list \<Rightarrow> pystr" where
  \<open>render_title_subtitle_value py data =
     (let title = safe_str py (get_or data (ustr ''title'') (JStr (ustr ''Title'')));
          subtitle = safe_str py (get_or data (ustr ''subtitle'') (JStr []));
          value = safe_str py (get_or data (ustr ''value'') (JStr (ustr ''N/A'')));
          description = safe_str py (get_or data (ustr ''description'') (JStr []));
          subtitle_html = (if subtitle \<noteq> [] then ustr ''<div class="subtitle mb-sm">''
                                                        @ html_escape subtitle
                                                        @ ustr ''</div>'' else []);
          description_html = (if description \<noteq> [] then ustr ''<div class="description mt-sm">''
                                                              @ html_escape description
                                                              @ ustr ''</div>'' else [])
      in ustr ''\<newline>        <div class="widget-content text-center">''
         @ ustr ''\<newline>            <div class="title mb-md">''
         @ html_escape title
         @ ustr ''</div>''
         @ ustr ''\<newline>            ''
         @ subtitle_html
         @ ustr ''\<newline>            <div class="value value--large mb-md">''
         @ html_escape value
         @ ustr ''</div>''
         @ ustr ''\<newline>            ''
         @ description_html
         @ ustr ''\<newline>        </div>''
         @ ustr ''\<newline>        '')\<close>

text \<open>
  One round of the loop of the metric grid: a title or a value that does not resolve
  raises and the metric is skipped, a unit that does not resolve is the empty text.
\<close>

definition metric_item ::
  "'f builtins \<Rightarrow> 'f json \<Rightarrow> 'f json \<Rightarrow> 'f json \<Rightarrow> 'f json \<Rightarrow> exn + pystr" where
  \<open>metric_item py title_path value_path unit_path metric =
     (case extract_path_value py metric title_path of
        Inl e \<Rightarrow> Inl e
      | Inr metric_title \<Rightarrow>
         (case extract_path_value py metric value_path of
            Inl e \<Rightarrow> Inl e
          | Inr metric_value \<Rightarrow>
             (let metric_unit = (case extract_path_value py metric unit_path of
                                   Inr u \<Rightarrow> u | Inl e \<Rightarrow> JStr [])
              in Inr (ustr ''\<newline>                <div class="metric-item">''
                      @ ustr ''\<newline>                    <div class="metric-info">''
                      @ ustr ''\<newline>                        <div class="label">''
                      @ html_escape (safe_str py metric_title)
                      @ ustr ''</div>''
                      @ ustr ''\<newline>                        <div class="value">''
                      @ html_escape (safe_str py metric_value)
                      @ html_escape (safe_str py metric_unit)
                      @ ustr ''</div>''
                      @ ustr ''\<newline>                    </div>''
                      @ ustr ''\<newline>                </div>''
                      @ ustr ''\<newline>                ''))))\<close>

definition render_metric_grid :: "'f builtins \<Rightarrow> (pystr \<times> 'f json) list \<Rightarrow> pystr" where
  \<open>render_metric_grid py data =
     (let metrics = get_or data (ustr ''metrics'') (JList []);
          title_path = get_or data (ustr ''metric_title_path'') (JStr (ustr ''name''));
          value_path = get_or data (ustr ''metric_value_path'') (JStr (ustr ''value''));
          unit_path = get_or data (ustr ''metric_unit_path'') (JStr (ustr ''unit''))
      in case metrics of
           JList ms \<Rightarrow>
             (let metrics_html = collect (map (metric_item py title_path value_path unit_path) (take 8 ms))
              in ustr ''\<newline>        <div class="widget-content">''
                 @ ustr ''\<newline>            <div class="metrics-grid">''
                 @ ustr ''\<newline>                ''
                 @ concat metrics_html
                 @ ustr ''\<newline>            </div>''
                 @ ustr ''\<newline>        </div>''
                 @ ustr ''\<newline>        '')
         | _ \<Rightarrow> render_error (ustr ''Metrics must be an array''))\<close>

definition render_weather_current :: "'f builtins \<Rightarrow> (pystr \<times> 'f json) list \<Rightarrow> pystr" where
  \<open>render_weather_current py data =
     (let temperature = safe_str py (get_or data (ustr ''temperature'') (JStr (ustr ''N/A'')));
          condition = safe_str py (get_or data (ustr ''condition'') (JStr (ustr ''Unknown'')));
          icon = safe_str py (get_or data (ustr ''icon'') (JStr [63743, 252, 229, 167, 212, 8719, 232]));
          humidity = safe_str py (get_or data (ustr ''humidity'') (JStr []));
          wind_speed = safe_str py (get_or data (ustr ''wind_speed'') (JStr []));
          details_html =
            (if humidity \<noteq> [] then [ustr ''<div class="description">Humidity: ''
                                           @ html_escape humidity
                                           @ ustr ''%</div>''] else [])
            @ (if wind_speed \<noteq> [] then [ustr ''<div class="description">Wind: ''
                                               @ html_escape wind_speed
                                               @ ustr '' m/s</div>''] else [])
      in ustr ''\<newline>        <div class="widget-content">''
         @ ustr ''\<newline>            <div class="weather-current">''
         @ ustr ''\<newline>                <div class="weather-icon">''
         @ ustr ''\<newline>                    <div style="font-size: 48px;">''
         @ html_escape icon
         @ ustr ''</div>''
         @ ustr ''\<newline>                </div>''
         @ ustr ''\<newline>                <div class="weather-temp">''
         @ ustr ''\<newline>                    <div class="value value--huge">''
         @ html_escape temperature
         @ [172, 8734]
         @ ustr ''</div>''
         @ ustr ''\<newline>                    <div class="subtitle">''
         @ html_escape condition
         @ ustr ''</div>''
         @ ustr ''\<newline>                </div>''
         @ ustr ''\<newline>            </div>''
         @ ustr ''\<newline>            ''
         @ concat details_html
         @ ustr ''\<newline>        </div>''
         @ ustr ''\<newline>        '')\<close>

text \<open>
  The clock as the time display reads it: \<open>datetime.now().strftime('%H:%M:%S')\<close> and
  \<open>datetime.now().strftime('%Y-%m-%d')\<close>, the defaults of the fields \<open>time\<close> and \<open>date\<close>.
\<close>

record clock =
  now_time :: pystr
  now_date :: pystr

definition render_time_display :: "'f builtins \<Rightarrow> clock \<Rightarrow> (pystr \<times> 'f json) list \<Rightarrow> pystr" where
  \<open>render_time_display py clk data =
     (let time_val = safe_str py (get_or data (ustr ''time'') (JStr (now_time clk)));
          date_val = safe_str py (get_or data (ustr ''date'') (JStr (now_date clk)));
          timezone = safe_str py (get_or data (ustr ''timezone'') (JStr []));
          format_type = safe_str py (get_or data (ustr ''format'') (JStr []));
          timezone_html = (if timezone \<noteq> [] then ustr ''<div class="meta">''
                                                        @ html_escape timezone
                                                        @ ustr ''</div>'' else []);
          format_html = (if format_type \<noteq> [] then ustr ''<div class="meta">''
                                                         @ html_escape format_type
                                                         @ ustr ''</div>'' else [])
      in ustr ''\<newline>        <div class="widget-content">''
         @ ustr ''\<newline>            <div class="time-display">''
         @ ustr ''\<newline>                <div class="time-main">''
         @ ustr ''\<newline>                    <div class="value value--huge">''
         @ html_escape time_val
         @ ustr ''</div>''
         @ ustr ''\<newline>                    <div class="subtitle">''
         @ html_escape date_val
         @ ustr ''</div>''
         @ ustr ''\<newline>                </div>''
         @ ustr ''\<newline>                <div class="time-meta">''
         @ ustr ''\<newline>                    ''
         @ timezone_html
         @ ustr ''\<newline>                    ''
         @ format_html
         @ ustr ''\<newline>                </div>''
         @ ustr ''\<newline>            </div>''
         @ ustr ''\<newline>        </div>''
         @ ustr ''\<newline>        '')\<close>

definition get_status_icon :: "'f builtins \<Rightarrow> 'f json \<Rightarrow> pystr" where
  \<open>get_status_icon py status =
     (let status_lower = lower (py_str py status)
      in if status_lower \<in> set [ustr ''online'', ustr ''ok'', ustr ''healthy'', ustr ''success'', ustr ''active'', ustr ''running'']
         then [8218, 250, 214]
         else if status_lower \<in> set [ustr ''offline'', ustr ''error'', ustr ''failed'', ustr ''down'', ustr ''inactive'']
         then [8218, 249, 229]
         else if status_lower \<in> set [ustr ''warning'', ustr ''degraded'', ustr ''partial'', ustr ''slow'']
         then [8218, 246, 8224, 212, 8719, 232]
         else [63743, 252, 238, 181])\<close>

definition get_status_class :: "'f builtins \<Rightarrow> 'f json \<Rightarrow> pystr" where
  \<open>get_status_class py status =
     (let status_lower = lower (py_str py status)
      in if status_lower \<in> set [ustr ''online'', ustr ''ok'', ustr ''healthy'', ustr ''success'', ustr ''active'', ustr ''running'']
         then ustr ''status-indicator--success''
         else if status_lower \<in> set [ustr ''offline'', ustr ''error'', ustr ''failed'', ustr ''down'', ustr ''inactive'']
         then ustr ''status-indicator--error''
         else if status_lower \<in> set [ustr ''warning'', ustr ''degraded'', ustr ''partial'', ustr ''slow'']
         then ustr ''status-indicator--warning''
         else ustr ''status-indicator--success'')\<close>

definition status_item ::
  "'f builtins \<Rightarrow> 'f json \<Rightarrow> 'f json \<Rightarrow> 'f json \<Rightarrow> 'f json \<Rightarrow> exn + pystr" where
  \<open>status_item py name_path status_path message_path item =
     (case extract_path_value py item name_path of
        Inl e \<Rightarrow> Inl e
      | Inr name \<Rightarrow>
         (case extract_path_value py item status_path of
            Inl e \<Rightarrow> Inl e
          | Inr status \<Rightarrow>
             (let message = (case extract_path_value py item message_path of
                               Inr m \<Rightarrow> m | Inl e \<Rightarrow> JStr []);
                  status_icon = get_status_icon py status;
                  status_class = get_status_class py status;
                  message_html = (if truthy py message then ustr ''<div class="description">''
                                                            @ html_escape (safe_str py message)
                                                            @ ustr ''</div>'' else [])
              in Inr (ustr ''\<newline>                <div class="metric-item">''
                      @ ustr ''\<newline>                    <div class="metric-icon">''
                      @ status_icon
                      @ ustr ''</div>''
                      @ ustr ''\<newline>                    <div class="metric-info">''
                      @ ustr ''\<newline>                        <div class="subtitle">''
                      @ html_escape (safe_str py name)
                      @ ustr ''</div>''
                      @ ustr ''\<newline>                        <div class="status-indicator ''
                      @ status_class
                      @ ustr ''">''
                      @ html_escape (safe_str py status)
                      @ ustr ''</div>''
                      @ ustr ''\<newline>                        ''
                      @ message_html
                      @ ustr ''\<newline>                    </div>''
                      @ ustr ''\<newline>                </div>''
                      @ ustr ''\<newline>                ''))))\<close>

definition render_status_list :: "'f builtins \<Rightarrow> (pystr \<times> 'f json) list \<Rightarrow> pystr" where
  \<open>render_status_list py data =
     (let items = get_or data (ustr ''items'') (JList []);
          name_path = get_or data (ustr ''item_name_path'') (JStr (ustr ''name''));
          status_path = get_or data (ustr ''item_status_path'') (JStr (ustr ''status''));
          message_path = get_or data (ustr ''item_message_path'') (JStr (ustr ''message''))
      in case items of
           JList xs \<Rightarrow>
             (let items_html = collect (map (status_item py name_path status_path message_path) (take 10 xs))
              in ustr ''\<newline>        <div class="widget-content">''
                 @ ustr ''\<newline>            <div class="metrics-grid">''
                 @ ustr ''\<newline>                ''
                 @ concat items_html
                 @ ustr ''\<newline>            </div>''
                 @ ustr ''\<newline>        </div>''
                 @ ustr ''\<newline>        '')
         | _ \<Rightarrow> render_error (ustr ''Items must be an array''))\<close>

definition icon_item ::
  "'f builtins \<Rightarrow> 'f json \<Rightarrow> 'f json \<Rightarrow> 'f json \<Rightarrow> 'f json \<Rightarrow> exn + pystr" where
  \<open>icon_item py icon_path title_path description_path item =
     (let icon = (case extract_path_value py item icon_path of Inr i \<Rightarrow> i | Inl e \<Rightarrow> JStr [])
      in case extract_path_value py item title_path of
           Inl e \<Rightarrow> Inl e
         | Inr title \<Rightarrow>
            (let description = (case extract_path_value py item description_path of
                                  Inr d \<Rightarrow> d | Inl e \<Rightarrow> JStr []);
                 icon_html = (if truthy py icon then ustr ''<div class="metric-icon">''
                                                     @ html_escape (safe_str py icon)
                                                     @ ustr ''</div>'' else []);
                 description_html = (if truthy py description then ustr ''<div class="description">''
                                                                   @ html_escape (safe_str py description)
                                                                   @ ustr ''</div>'' else [])
             in Inr (ustr ''\<newline>                <div class="metric-item">''
                     @ ustr ''\<newline>                    ''
                     @ icon_html
                     @ ustr ''\<newline>                    <div class="metric-info">''
                     @ ustr ''\<newline>                        <div class="subtitle">''
                     @ html_escape (safe_str py title)
                     @ ustr ''</div>''
                     @ ustr ''\<newline>                        ''
                     @ description_html
                     @ ustr ''\<newline>                    </div>''
                     @ ustr ''\<newline>                </div>''
                     @ ustr ''\<newline>                '')))\<close>

definition render_icon_list :: "'f builtins \<Rightarrow> (pystr \<times> 'f json) list \<Rightarrow> pystr" where
  \<open>render_icon_list py data =
     (let items = get_or data (ustr ''items'') (JList []);
          icon_path = get_or data (ustr ''item_icon_path'') (JStr (ustr ''icon''));
          title_path = get_or data (ustr ''item_title_path'') (JStr (ustr ''title''));
          description_path = get_or data (ustr ''item_description_path'') (JStr (ustr ''description''))
      in case items of
           JList xs \<Rightarrow>
             (let items_html = collect (map (icon_item py icon_path title_path description_path) (take 8 xs))
              in ustr ''\<newline>        <div class="widget-content">''
                 @ ustr ''\<newline>            <div class="metrics-grid">''
                 @ ustr ''\<newline>                ''
                 @ concat items_html
                 @ ustr ''\<newline>            </div>''
                 @ ustr ''\<newline>        </div>''
                 @ ustr ''\<newline>        '')
         | _ \<Rightarrow> render_error (ustr ''Items must be an array''))\<close>

definition render_text_block :: "'f builtins \<Rightarrow> (pystr \<times> 'f json) list \<Rightarrow> pystr" where
  \<open>render_text_block py data =
     (let title = safe_str py (get_or data (ustr ''title'') (JStr []));
          content = safe_str py (get_or data (ustr ''content'') (JStr (ustr ''No content'')));
          author = safe_str py (get_or data (ustr ''author'') (JStr []));
          timestamp = safe_str py (get_or data (ustr ''timestamp'') (JStr []));
          title_html = (if title \<noteq> [] then ustr ''<div class="title mb-md">''
                                                  @ html_escape title
                                                  @ ustr ''</div>'' else []);
          author_html = (if author \<noteq> [] then ustr ''<div class="meta">''
                                                    @ [8218, 196, 238]
                                                    @ ustr '' ''
                                                    @ html_escape author
                                                    @ ustr ''</div>'' else []);
          timestamp_html = (if timestamp \<noteq> [] then ustr ''<div class="meta">''
                                                          @ html_escape timestamp
                                                          @ ustr ''</div>'' else [])
      in ustr ''\<newline>        <div class="widget-content">''
         @ ustr ''\<newline>            ''
         @ title_html
         @ ustr ''\<newline>            <div class="description mb-md">''
         @ html_escape content
         @ ustr ''</div>''
         @ ustr ''\<newline>            ''
         @ author_html
         @ ustr ''\<newline>            ''
         @ timestamp_html
         @ ustr ''\<newline>        </div>''
         @ ustr ''\<newline>        '')\<close>

text \<open>
  The chart: the data points must be a list; an empty list gives the text "No data
  available", another list its minimum, maximum and mean, and raises when these raise.
\<close>

definition render_chart_simple :: "'f builtins \<Rightarrow> (pystr \<times> 'f json) list \<Rightarrow> exn + pystr" where
  \<open>render_chart_simple py data =
     (let title = safe_str py (get_or data (ustr ''title'') (JStr (ustr ''Chart'')));
          data_points = get_or data (ustr ''data_points'') (JList []);
          unit = safe_str py (get_or data (ustr ''unit'') (JStr []))
      in case data_points of
           JList xs \<Rightarrow>
             (case (if xs \<noteq> [] then
                      (case chart_stats py xs of
                         Inl e \<Rightarrow> Inl e
                       | Inr (min_val, max_val, avg_text) \<Rightarrow>
                          Inr (ustr ''\<newline>            <div class="metrics-grid">''
                               @ ustr ''\<newline>                <div class="metric-item">''
                               @ ustr ''\<newline>                    <div class="metric-info">''
                               @ ustr ''\<newline>                        <div class="label">Min</div>''
                               @ ustr ''\<newline>                        <div class="value">''
                               @ py_str py min_val
                               @ ustr '' ''
                               @ html_escape unit
                               @ ustr ''</div>''
                               @ ustr ''\<newline>                    </div>''
                               @ ustr ''\<newline>                </div>''
                               @ ustr ''\<newline>                <div class="metric-item">''
                               @ ustr ''\<newline>                    <div class="metric-info">''
                               @ ustr ''\<newline>                        <div class="label">Max</div>''
                               @ ustr ''\<newline>                        <div class="value">''
                               @ py_str py max_val
                               @ ustr '' ''
                               @ html_escape unit
                               @ ustr ''</div>''
                               @ ustr ''\<newline>                    </div>''
                               @ ustr ''\<newline>                </div>''
                               @ ustr ''\<newline>                <div class="metric-item">''
                               @ ustr ''\<newline>                    <div class="metric-info">''
                               @ ustr ''\<newline>                        <div class="label">Avg</div>''
                               @ ustr ''\<newline>                        <div class="value">''
                               @ avg_text
                               @ ustr '' ''
                               @ html_escape unit
                               @ ustr ''</div>''
                               @ ustr ''\<newline>                    </div>''
                               @ ustr ''\<newline>                </div>''
                               @ ustr ''\<newline>            </div>''
                               @ ustr ''\<newline>            ''))
                    else Inr (ustr ''<div class="description">No data available</div>'')) of
                Inl e \<Rightarrow> Inl e
              | Inr stats_html \<Rightarrow>
                 Inr (ustr ''\<newline>        <div class="widget-content">''
                      @ ustr ''\<newline>            <div class="title mb-md">''
                      @ html_escape title
                      @ ustr ''</div>''
                      @ ustr ''\<newline>            ''
                      @ stats_html
                      @ ustr ''\<newline>        </div>''
                      @ ustr ''\<newline>        ''))
         | _ \<Rightarrow> Inr (render_error (ustr ''Data points must be an array'')))\<close>

definition render_image_caption :: "'f builtins \<Rightarrow> (pystr \<times> 'f json) list \<Rightarrow> pystr" where
  \<open>render_image_caption py data =
     (let image_url = safe_str py (get_or data (ustr ''image_url'') (JStr []));
          caption = safe_str py (get_or data (ustr ''caption'') (JStr []));
          alt_text = safe_str py (get_or data (ustr ''alt_text'') (JStr (ustr ''Image'')));
          title = safe_str py (get_or data (ustr ''title'') (JStr []))
      in if image_url = [] then render_error (ustr ''Image URL is required'')
         else
           (let title_html = (if title \<noteq> [] then ustr ''<div class="title mb-md">''
                                                        @ html_escape title
                                                        @ ustr ''</div>'' else []);
                caption_html = (if caption \<noteq> [] then ustr ''<div class="description mt-md">''
                                                            @ html_escape caption
                                                            @ ustr ''</div>'' else [])
            in ustr ''\<newline>        <div class="widget-content text-center">''
               @ ustr ''\<newline>            ''
               @ title_html
               @ ustr ''\<newline>            <img src="''
               @ html_escape image_url
               @ ustr ''" alt="''
               @ html_escape alt_text
               @ ustr ''" ''
               @ ustr ''\<newline>                 style="max-width: 100%; height: auto; border-radius: var(--border-radius);">''
               @ ustr ''\<newline>            ''
               @ caption_html
               @ ustr ''\<newline>        </div>''
               @ ustr ''\<newline>        ''))\<close>

text \<open>
  One round of the loop of the headlines. The body stands in \<open>try\<close> / \<open>except Exception\<close>;
  none of its statements raises.
\<close>

definition rss_headline_item :: "'f builtins \<Rightarrow> 'f json \<Rightarrow> exn + pystr" where
  \<open>rss_headline_item py item =
     (case item of
        JDict d \<Rightarrow>
          (let title = safe_str py (get_or d (ustr ''title'') (JStr (ustr ''Untitled'')));
               link = safe_str py (get_or d (ustr ''link'') (JStr []));
               pub_date = safe_str py (get_or d (ustr ''pub_date'') (JStr []));
               date_html = (if pub_date \<noteq> [] then ustr ''<div class="meta">''
                                                         @ html_escape pub_date
                                                         @ ustr ''</div>'' else [])
           in if link \<noteq> [] then Inr (ustr ''\<newline>                        <div class="metric-item">''
                                            @ ustr ''\<newline>                            <div class="metric-info">''
                                            @ ustr ''\<newline>                                <div class="subtitle">''
                                            @ [8218, 196, 162]
                                            @ ustr '' <a href="''
                                            @ html_escape link
                                            @ ustr ''" target="_blank">''
                                            @ html_escape title
                                            @ ustr ''</a></div>''
                                            @ ustr ''\<newline>                                ''
                                            @ date_html
                                            @ ustr ''\<newline>                            </div>''
                                            @ ustr ''\<newline>                        </div>''
                                            @ ustr ''\<newline>                        '')
              else Inr (ustr ''\<newline>                        <div class="metric-item">''
                        @ ustr ''\<newline>                            <div class="metric-info">''
                        @ ustr ''\<newline>                                <div class="subtitle">''
                        @ [8218, 196, 162]
                        @ ustr '' ''
                        @ html_escape title
                        @ ustr ''</div>''
                        @ ustr ''\<newline>                                ''
                        @ date_html
                        @ ustr ''\<newline>                            </div>''
                        @ ustr ''\<newline>                        </div>''
                        @ ustr ''\<newline>                        ''))
      | _ \<Rightarrow> Inr (ustr ''\<newline>                    <div class="metric-item">''
                             @ ustr ''\<newline>                        <div class="metric-info">''
                             @ ustr ''\<newline>                            <div class="subtitle">''
                             @ [8218, 196, 162]
                             @ ustr '' ''
                             @ html_escape (safe_str py item)
                             @ ustr ''</div>''
                             @ ustr ''\<newline>                        </div>''
                             @ ustr ''\<newline>                    </div>''
                             @ ustr ''\<newline>                    ''))\<close>

definition render_rss_headlines :: "'f builtins \<Rightarrow> (pystr \<times> 'f json) list \<Rightarrow> pystr" where
  \<open>render_rss_headlines py data =
     (let feed_title = safe_str py (get_or data (ustr ''feed_title'') (JStr (ustr ''RSS Feed'')));
          items = get_or data (ustr ''items'') (JList [])
      in case items of
           JList xs \<Rightarrow>
             (let rendered = collect (map (rss_headline_item py) (take 10 xs));
                  items_html = (if rendered = []
                                then [ustr ''<div class="description">No headlines available</div>'']
                                else rendered)
              in ustr ''\<newline>        <div class="widget-content">''
                 @ ustr ''\<newline>            <div class="title mb-md">''
                 @ html_escape feed_title
                 @ ustr ''</div>''
                 @ ustr ''\<newline>            <div class="metrics-grid">''
                 @ ustr ''\<newline>                ''
                 @ concat items_html
                 @ ustr ''\<newline>            </div>''
                 @ ustr ''\<newline>        </div>''
                 @ ustr ''\<newline>        '')
         | _ \<Rightarrow> render_error (ustr ''RSS items must be an array''))\<close>

definition render_rss_summary :: "'f builtins \<Rightarrow> (pystr \<times> 'f json) list \<Rightarrow> pystr" where
  \<open>render_rss_summary py data =
     (let feed_title = safe_str py (get_or data (ustr ''feed_title'') (JStr (ustr ''RSS Feed'')));
          items = get_or data (ustr ''items'') (JList [])
      in case items of
           JList (item # rest) \<Rightarrow>
             (let (title, description0, author, pub_date, link) =
                    (case item of
                       JDict d \<Rightarrow>
                         (safe_str py (get_or d (ustr ''title'') (JStr (ustr ''Untitled''))),
                          safe_str py (get_or d (ustr ''description'') (JStr [])),
                          safe_str py (get_or d (ustr ''author'') (JStr [])),
                          safe_str py (get_or d (ustr ''pub_date'') (JStr [])),
                          safe_str py (get_or d (ustr ''link'') (JStr [])))
                     | _ \<Rightarrow> (safe_str py item, [], [], [], []));
                  description = (if 200 < length description0
                                 then take 200 description0 @ ustr ''...'' else description0);
                  author_html = (if author \<noteq> [] then ustr ''<div class="meta">By: ''
                                                            @ html_escape author
                                                            @ ustr ''</div>'' else []);
                  date_html = (if pub_date \<noteq> [] then ustr ''<div class="meta">''
                                                            @ html_escape pub_date
                                                            @ ustr ''</div>'' else []);
                  link_html = (if link \<noteq> [] then ustr ''<div class="meta"><a href="''
                                                        @ html_escape link
                                                        @ ustr ''" target="_blank">Read more</a></div>'' else [])
              in ustr ''\<newline>        <div class="widget-content">''
                 @ ustr ''\<newline>            <div class="title mb-md">''
                 @ html_escape feed_title
                 @ ustr ''</div>''
                 @ ustr ''\<newline>            <div class="subtitle mb-sm">''
                 @ html_escape title
                 @ ustr ''</div>''
                 @ ustr ''\<newline>            <div class="description mb-md">''
                 @ html_escape description
                 @ ustr ''</div>''
                 @ ustr ''\<newline>            ''
                 @ author_html
                 @ ustr ''\<newline>            ''
                 @ date_html
                 @ ustr ''\<newline>            ''
                 @ link_html
                 @ ustr ''\<newline>        </div>''
                 @ ustr ''\<newline>        '')
         | _ \<Rightarrow> ustr ''\<newline>            <div class="widget-content text-center">''
                           @ ustr ''\<newline>                <div class="title mb-md">''
                           @ html_escape feed_title
                           @ ustr ''</div>''
                           @ ustr ''\<newline>                <div class="description">No articles available</div>''
                           @ ustr ''\<newline>            </div>''
                           @ ustr ''\<newline>            '')\<close>

definition render_rss_feed_info :: "'f builtins \<Rightarrow> (pystr \<times> 'f json) list \<Rightarrow> exn + pystr" where
  \<open>render_rss_feed_info py data =
     (let feed_title = safe_str py (get_or data (ustr ''feed_title'') (JStr (ustr ''RSS Feed'')));
          feed_description0 = safe_str py (get_or data (ustr ''feed_description'') (JStr []));
          feed_link = safe_str py (get_or data (ustr ''feed_link'') (JStr []))
      in case py_len (get_or data (ustr ''items'') (JList [])) of
           Inl e \<Rightarrow> Inl e
         | Inr item_count \<Rightarrow>
            (let last_updated = safe_str py (get_or data (ustr ''last_updated'') (JStr []));
                 feed_description = (if 150 < length feed_description0
                                     then take 150 feed_description0 @ ustr ''...'' else feed_description0);
                 description_html = (if feed_description \<noteq> [] then ustr ''<div class="description mb-md">''
                                                                          @ html_escape feed_description
                                                                          @ ustr ''</div>'' else []);
                 link_html = (if feed_link \<noteq> [] then ustr ''<div class="meta"><a href="''
                                                            @ html_escape feed_link
                                                            @ ustr ''" target="_blank">Visit Feed</a></div>'' else []);
                 updated_html = (if last_updated \<noteq> [] then ustr ''<div class="meta">Last Updated: ''
                                                                  @ html_escape last_updated
                                                                  @ ustr ''</div>'' else [])
             in Inr (ustr ''\<newline>        <div class="widget-content text-center">''
                     @ ustr ''\<newline>            <div class="title mb-md">''
                     @ html_escape feed_title
                     @ ustr ''</div>''
                     @ ustr ''\<newline>            ''
                     @ description_html
                     @ ustr ''\<newline>            <div class="value value--large mb-md">''
                     @ int_str (int item_count)
                     @ ustr ''</div>''
                     @ ustr ''\<newline>            <div class="subtitle mb-md">Articles Available</div>''
                     @ ustr ''\<newline>            ''
                     @ link_html
                     @ ustr ''\<newline>            ''
                     @ updated_html
                     @ ustr ''\<newline>        </div>''
                     @ ustr ''\<newline>        '')))\<close>

text \<open>
  The dispatch on the template identifier. Only the chart and the feed information can
  raise; an unknown identifier gives an error fragment.
\<close>

definition render_template ::
  "'f builtins \<Rightarrow> clock \<Rightarrow> pystr \<Rightarrow> (pystr \<times> 'f json) list \<Rightarrow> exn + pystr" where
  \<open>render_template py clk template_type data =
     (if template_type = ustr ''key_value'' then Inr (render_key_value py data)
      else if template_type = ustr ''title_subtitle_value'' then Inr (render_title_subtitle_value py data)
      else if template_type = ustr ''metric_grid'' then Inr (render_metric_grid py data)
      else if template_type = ustr ''weather_current'' then Inr (render_weather_current py data)
      else if template_type = ustr ''time_display'' then Inr (render_time_display py clk data)
      else if template_type = ustr ''status_list'' then Inr (render_status_list py data)
      else if template_type = ustr ''icon_list'' then Inr (render_icon_list py data)
      else if template_type = ustr ''text_block'' then Inr (render_text_block py data)
      else if template_type = ustr ''chart_simple'' then render_chart_simple py data
      else if template_type = ustr ''image_caption'' then Inr (render_image_caption py data)
      else if template_type = ustr ''rss_headlines'' then Inr (render_rss_headlines py data)
      else if template_type = ustr ''rss_summary'' then Inr (render_rss_summary py data)
      else if template_type = ustr ''rss_feed_info'' then render_rss_feed_info py data
      else Inr (render_error (ustr ''Unknown template type: '' @ template_type)))\<close>

section \<open>The text of the templates\<close>

text \<open>
  Every piece of text that a template writes itself: the lines of the fragments above, the
  status icons and the status classes.
\<close>

definition template_markup :: "pystr list" where
  \<open>template_markup =
     [ustr ''\<newline>        <div class="widget-error">'',
      ustr ''\<newline>            <div class="error-icon">'',
      [8218, 246, 8224, 212, 8719, 232],
      ustr ''</div>'',
      ustr ''\<newline>            <div class="error-message">'',
      ustr ''\<newline>        </div>'',
      ustr ''\<newline>        '',
      ustr ''\<newline>        <div class="widget-content">'',
      ustr ''\<newline>            <div class="value-display text-center">'',
      ustr ''\<newline>                <div class="label mb-sm">'',
      ustr ''\<newline>                <div class="value value--large">'',
      ustr ''\<newline>            </div>'',
      ustr ''<div class="subtitle mb-sm">'',
      ustr ''<div class="description mt-sm">'',
      ustr ''\<newline>        <div class="widget-content text-center">'',
      ustr ''\<newline>            <div class="title mb-md">'',
      ustr ''\<newline>            '',
      ustr ''\<newline>            <div class="value value--large mb-md">'',
      ustr ''\<newline>                <div class="metric-item">'',
      ustr ''\<newline>                    <div class="metric-info">'',
      ustr ''\<newline>                        <div class="label">'',
      ustr ''\<newline>                        <div class="value">'',
      ustr ''\<newline>                    </div>'',
      ustr ''\<newline>                </div>'',
      ustr ''\<newline>                '',
      ustr ''\<newline>            <div class="metrics-grid">'',
      ustr ''<div class="description">Humidity: '',
      ustr ''%</div>'',
      ustr ''<div class="description">Wind: '',
      ustr '' m/s</div>'',
      ustr ''\<newline>            <div class="weather-current">'',
      ustr ''\<newline>                <div class="weather-icon">'',
      ustr ''\<newline>                    <div style="font-size: 48px;">'',
      ustr ''\<newline>                <div class="weather-temp">'',
      ustr ''\<newline>                    <div class="value value--huge">'',
      [172, 8734],
      ustr ''\<newline>                    <div class="subtitle">'',
      ustr ''<div class="meta">'',
      ustr ''\<newline>            <div class="time-display">'',
      ustr ''\<newline>                <div class="time-main">'',
      ustr ''\<newline>                <div class="time-meta">'',
      ustr ''\<newline>                    '',
      ustr ''status-indicator--success'',
      ustr ''status-indicator--error'',
      ustr ''status-indicator--warning'',
      ustr ''<div class="description">'',
      ustr ''\<newline>                    <div class="metric-icon">'',
      ustr ''\<newline>                        <div class="subtitle">'',
      ustr ''\<newline>                        <div class="status-indicator '',
      ustr ''">'',
      ustr ''\<newline>                        '',
      ustr ''<div class="metric-icon">'',
      ustr ''<div class="title mb-md">'',
      [8218, 196, 238],
      ustr '' '',
      ustr ''\<newline>            <div class="description mb-md">'',
      ustr ''\<newline>                        <div class="label">Min</div>'',
      ustr ''\<newline>                        <div class="label">Max</div>'',
      ustr ''\<newline>                        <div class="label">Avg</div>'',
      ustr ''<div class="description">No data available</div>'',
      ustr ''<div class="description mt-md">'',
      ustr ''\<newline>            <img src="'',
      ustr ''" alt="'',
      ustr ''" '',
      ustr ''\<newline>                 style="max-width: 100%; height: auto; border-radius: var(--border-radius);">'',
      ustr ''\<newline>                        <div class="metric-item">'',
      ustr ''\<newline>                            <div class="metric-info">'',
      ustr ''\<newline>                                <div class="subtitle">'',
      [8218, 196, 162],
      ustr '' <a href="'',
      ustr ''" target="_blank">'',
      ustr ''</a></div>'',
      ustr ''\<newline>                                '',
      ustr ''\<newline>                            </div>'',
      ustr ''\<newline>                        </div>'',
      ustr ''\<newline>                    <div class="metric-item">'',
      ustr ''\<newline>                        <div class="metric-info">'',
      ustr ''\<newline>                            <div class="subtitle">'',
      ustr ''<div class="description">No headlines available</div>'',
      ustr ''<div class="meta">By: '',
      ustr ''<div class="meta"><a href="'',
      ustr ''" target="_blank">Read more</a></div>'',
      ustr ''\<newline>            <div class="subtitle mb-sm">'',
      ustr ''\<newline>            <div class="widget-content text-center">'',
      ustr ''\<newline>                <div class="title mb-md">'',
      ustr ''\<newline>                <div class="description">No articles available</div>'',
      ustr ''<div class="description mb-md">'',
      ustr ''" target="_blank">Visit Feed</a></div>'',
      ustr ''<div class="meta">Last Updated: '',
      ustr ''\<newline>            <div class="subtitle mb-md">Articles Available</div>'',
      [8218, 250, 214],
      [8218, 249, 229],
      [63743, 252, 238, 181]]\<close>

section \<open>Acquisition\<close>

text \<open>
  The network is what \<open>requests.get\<close> and \<open>requests.post\<close> answer: an exception or a response.
  Of a response the source reads \<open>raise_for_status()\<close>, \<open>json()\<close> and, through
  \<open>ET.fromstring(response.content)\<close>, the parsed document. Every call is written to a log.
\<close>

datatype xml = Element pystr "pystr option" "xml list"

fun xml_tag :: "xml \<Rightarrow> pystr" where
  "xml_tag (Element t txt cs) = t"

fun xml_text :: "xml \<Rightarrow> pystr option" where
  "xml_text (Element t txt cs) = txt"

fun xml_children :: "xml \<Rightarrow> xml list" where
  "xml_children (Element t txt cs) = cs"

record 'f response =
  raise_for_status :: "exn option"
  json_body :: "exn + 'f json"
  xml_root :: "exn + xml"

datatype 'f call =
    HttpGet pystr "(pystr \<times> pystr) list" "'f json"
  | HttpPost pystr "'f json" "(pystr \<times> pystr) list" "'f json"

record 'f network =
  http_get :: "pystr \<Rightarrow> (pystr \<times> pystr) list \<Rightarrow> 'f json \<Rightarrow> exn + 'f response"
  http_post :: "pystr \<Rightarrow> 'f json \<Rightarrow> (pystr \<times> pystr) list \<Rightarrow> 'f json \<Rightarrow> exn + 'f response"

text \<open>The configuration of one widget, with the types the source's defaults have.\<close>

record 'f config =
  data_source :: pystr
  api_url :: pystr
  api_headers :: "(pystr \<times> pystr) list"
  template_type :: pystr
  data_mapping :: "(pystr \<times> pystr) list"
  rss_config :: "(pystr \<times> 'f json) list"
  timeout :: "'f json"

text \<open>
  The classes that \<open>except requests.exceptions.RequestException\<close> and
  \<open>except json.JSONDecodeError\<close> catch. The decode error of \<open>requests\<close> is both.
\<close>

definition is_request_exception :: "exc_class \<Rightarrow> bool" where
  "is_request_exception c \<longleftrightarrow> c \<in> {ConnectionError, RequestException, RequestsJSONDecodeError}"

definition is_json_decode_error :: "exc_class \<Rightarrow> bool" where
  "is_json_decode_error c \<longleftrightarrow> c \<in> {RequestsJSONDecodeError, JSONDecodeError}"

text \<open>The three calls on a response that stand in a \<open>try\<close> block, up to the first that raises.\<close>

definition checked_json :: "exn + 'f response \<Rightarrow> exn + 'f json" where
  "checked_json r =
     (case r of
        Inl e \<Rightarrow> Inl e
      | Inr resp \<Rightarrow> (case raise_for_status resp of Some e \<Rightarrow> Inl e | None \<Rightarrow> json_body resp))"

definition checked_xml :: "exn + 'f response \<Rightarrow> exn + xml" where
  "checked_xml r =
     (case r of
        Inl e \<Rightarrow> Inl e
      | Inr resp \<Rightarrow> (case raise_for_status resp of Some e \<Rightarrow> Inl e | None \<Rightarrow> xml_root resp))"

definition setdefault :: "(pystr \<times> pystr) list \<Rightarrow> pystr \<Rightarrow> pystr \<Rightarrow> (pystr \<times> pystr) list" where
  "setdefault d k v = (if dict_has d k then d else d @ [(k, v)])"

definition fetch_api_data :: "'f network \<Rightarrow> 'f config \<Rightarrow> (exn + 'f json) \<times> 'f call list" where
  \<open>fetch_api_data net cfg =
     (if api_url cfg = [] then (Inl (Exn ValueError (ustr ''API URL is required'')), [])
      else
        (let headers = setdefault (api_headers cfg) (ustr ''User-Agent'') (ustr ''E-Paper-Dashboard/1.0'')
         in (case checked_json (http_get net (api_url cfg) headers (timeout cfg)) of
               Inr v \<Rightarrow> Inr v
             | Inl e \<Rightarrow>
                if is_request_exception (exn_class e)
                then Inl (Exn PlainException (ustr ''API request failed: '' @ exn_str e))
                else if is_json_decode_error (exn_class e)
                then Inl (Exn PlainException (ustr ''Invalid JSON response: '' @ exn_str e))
                else Inl e,
             [HttpGet (api_url cfg) headers (timeout cfg)])))\<close>

text \<open>\<open>parent.find(tag)\<close> and \<open>parent.findall(tag)\<close>: the children with that tag, in order.\<close>

definition findall :: "xml \<Rightarrow> pystr \<Rightarrow> xml list" where
  "findall parent tag_name = filter (\<lambda>c. xml_tag c = tag_name) (xml_children parent)"

definition find_child :: "xml \<Rightarrow> pystr \<Rightarrow> xml option" where
  "find_child parent tag_name = (case findall parent tag_name of [] \<Rightarrow> None | c # cs \<Rightarrow> Some c)"

definition get_element_text :: "xml \<Rightarrow> pystr \<Rightarrow> pystr" where
  "get_element_text parent tag_name =
     (case find_child parent tag_name of
        None \<Rightarrow> []
      | Some element \<Rightarrow>
         (case xml_text element of None \<Rightarrow> [] | Some t \<Rightarrow> if t \<noteq> [] then strip t else []))"

text \<open>
  \<open>xs[:n]\<close> with \<open>n\<close> a value of the configuration: an integer (a \<open>bool\<close> is one) cuts, from
  the end when negative; \<open>None\<close> keeps all; any other value raises \<open>TypeError\<close>.
\<close>

definition slice_to_int :: "'a list \<Rightarrow> int \<Rightarrow> 'a list" where
  "slice_to_int xs n = (if 0 \<le> n then take (nat n) xs else take (length xs - nat (- n)) xs)"

definition slice_to :: "'a list \<Rightarrow> 'f json \<Rightarrow> exn + 'a list" where
  "slice_to xs n =
     (case n of
        JInt i \<Rightarrow> Inr (slice_to_int xs i)
      | JBool b \<Rightarrow> Inr (slice_to_int xs (if b then 1 else 0))
      | JNull \<Rightarrow> Inr xs
      | _ \<Rightarrow> Inl (Exn TypeError
               (ustr ''slice indices must be integers or None or have an __index__ method'')))"

definition item_data :: "xml \<Rightarrow> 'f json" where
  "item_data item =
     JDict [(ustr ''title'', JStr (get_element_text item (ustr ''title''))),
            (ustr ''description'', JStr (get_element_text item (ustr ''description''))),
            (ustr ''link'', JStr (get_element_text item (ustr ''link''))),
            (ustr ''pub_date'', JStr (get_element_text item (ustr ''pubDate''))),
            (ustr ''author'', JStr (get_element_text item (ustr ''author''))),
            (ustr ''guid'', JStr (get_element_text item (ustr ''guid'')))]"

definition feed_of_root :: "'f config \<Rightarrow> xml \<Rightarrow> exn + 'f json" where
  "feed_of_root cfg root =
     (case find_child root (ustr ''channel'') of
        None \<Rightarrow> Inl (Exn PlainException (ustr ''Invalid RSS format: no channel element found''))
      | Some channel \<Rightarrow>
         (case slice_to (findall channel (ustr ''item''))
                 (get_or (rss_config cfg) (ustr ''max_items'') (JInt 10)) of
            Inl e \<Rightarrow> Inl e
          | Inr items \<Rightarrow>
             Inr (JDict [(ustr ''title'', JStr (get_element_text channel (ustr ''title''))),
                         (ustr ''description'', JStr (get_element_text channel (ustr ''description''))),
                         (ustr ''link'', JStr (get_element_text channel (ustr ''link''))),
                         (ustr ''items'', JList (map item_data items))])))"

definition fetch_rss_direct :: "'f network \<Rightarrow> 'f config \<Rightarrow> (exn + 'f json) \<times> 'f call list" where
  \<open>fetch_rss_direct net cfg =
     (let headers = [(ustr ''User-Agent'', ustr ''E-Paper-Dashboard/1.0 RSS Reader'')]
      in (case (case checked_xml (http_get net (api_url cfg) headers (timeout cfg)) of
                  Inl e \<Rightarrow> Inl e
                | Inr root \<Rightarrow> feed_of_root cfg root) of
            Inr feed_data \<Rightarrow> Inr feed_data
          | Inl e \<Rightarrow>
             if exn_class e = ParseError
             then Inl (Exn PlainException (ustr ''RSS XML parsing failed: '' @ exn_str e))
             else if is_request_exception (exn_class e)
             then Inl (Exn PlainException (ustr ''RSS request failed: '' @ exn_str e))
             else Inl e,
          [HttpGet (api_url cfg) headers (timeout cfg)]))\<close>

text \<open>
  \<open>'feed' in data\<close> on the decoded answer of the preview service: a key of a dictionary, an
  item of a list, a part of a text; any other value raises \<open>TypeError\<close>.
\<close>

definition py_in :: "pystr \<Rightarrow> 'f json \<Rightarrow> exn + bool" where
  "py_in k v =
     (case v of
        JDict d \<Rightarrow> Inr (dict_has d k)
      | JList xs \<Rightarrow> Inr (JStr k \<in> set xs)
      | JStr s \<Rightarrow> Inr (contains k s)
      | _ \<Rightarrow> Inl (not_iterable v))"

definition feed_of_answer :: "'f builtins \<Rightarrow> 'f json \<Rightarrow> exn + 'f json" where
  "feed_of_answer py data =
     (case py_in (ustr ''feed'') data of
        Inl e \<Rightarrow> Inl e
      | Inr present \<Rightarrow>
         if \<not> present then Inl (Exn PlainException (ustr ''Invalid RSS API response format''))
         else subscript_key py data (ustr ''feed''))"

definition rss_api_url :: pystr where
  "rss_api_url = ustr ''http://localhost:8080/api/rss/preview''"

definition rss_payload :: "'f config \<Rightarrow> 'f json" where
  "rss_payload cfg =
     JDict [(ustr ''feed_url'', JStr (api_url cfg)), (ustr ''rss_config'', JDict (rss_config cfg))]"

definition rss_post :: "'f config \<Rightarrow> 'f call" where
  "rss_post cfg =
     HttpPost rss_api_url (rss_payload cfg) [(ustr ''Content-Type'', ustr ''application/json'')] (timeout cfg)"

text \<open>
  The feed: first the preview service; on a connection error, or on another exception whose
  text holds "Connection" or, in lower case, "connection", the feed is fetched directly.
\<close>

definition fetch_rss_data ::
  "'f builtins \<Rightarrow> 'f network \<Rightarrow> 'f config \<Rightarrow> (exn + 'f json) \<times> 'f call list" where
  \<open>fetch_rss_data py net cfg =
     (if api_url cfg = [] then (Inl (Exn ValueError (ustr ''RSS feed URL is required'')), [])
      else
        (case (case checked_json
                      (http_post net rss_api_url (rss_payload cfg)
                         [(ustr ''Content-Type'', ustr ''application/json'')] (timeout cfg)) of
                 Inl e \<Rightarrow> Inl e
               | Inr data \<Rightarrow> feed_of_answer py data) of
           Inr feed \<Rightarrow> (Inr feed, [rss_post cfg])
         | Inl e \<Rightarrow>
            if exn_class e = ConnectionError
            then (fst (fetch_rss_direct net cfg), rss_post cfg # snd (fetch_rss_direct net cfg))
            else if contains (ustr ''Connection'') (exn_str e)
                    \<or> contains (ustr ''connection'') (lower (exn_str e))
            then (fst (fetch_rss_direct net cfg), rss_post cfg # snd (fetch_rss_direct net cfg))
            else (Inl (Exn PlainException (ustr ''RSS API request failed: '' @ exn_str e)),
                  [rss_post cfg])))\<close>

section \<open>The pipeline\<close>

text \<open>
  \<open>execute_body\<close> is the \<open>try\<close> block of \<open>execute\<close>: acquisition, mapping, rendering.
  \<open>execute\<close> turns an exception of the block into the error fragment.
\<close>

definition fetch_data :: "'f builtins \<Rightarrow> 'f network \<Rightarrow> 'f config \<Rightarrow> (exn + 'f json) \<times> 'f call list" where
  "fetch_data py net cfg =
     (if data_source cfg = ustr ''rss'' then fetch_rss_data py net cfg else fetch_api_data net cfg)"

definition execute_body :: "'f builtins \<Rightarrow> clock \<Rightarrow> 'f network \<Rightarrow> 'f config \<Rightarrow> exn + pystr" where
  "execute_body py clk net cfg =
     (case fst (fetch_data py net cfg) of
        Inl e \<Rightarrow> Inl e
      | Inr data \<Rightarrow>
         (let mapped_data = apply_data_mapping py (data_mapping cfg) data
          in render_template py clk (template_type cfg) mapped_data))"

definition execute :: "'f builtins \<Rightarrow> clock \<Rightarrow> 'f network \<Rightarrow> 'f config \<Rightarrow> pystr" where
  "execute py clk net cfg =
     (case execute_body py clk net cfg of
        Inr html_output \<Rightarrow> html_output
      | Inl e \<Rightarrow> render_error (ustr ''Widget execution failed: '' @ exn_str e))"

section \<open>Fragments\<close>

text \<open>
  The texts made of template text and of HTML-escaped text only.
\<close>

inductive_set fragments :: "pystr set" where
  empty: "[] \<in> fragments"
| markup: "m \<in> set template_markup \<Longrightarrow> m \<in> fragments"
| escaped: "html_escape s \<in> fragments"
| append: "a \<in> fragments \<Longrightarrow> b \<in> fragments \<Longrightarrow> a @ b \<in> fragments"

text \<open>
  A text in which every \<open><\<close> is followed by \<open>d\<close>, \<open>/\<close>, \<open>a\<close> or \<open>i\<close>: it opens no tag but
  those of the templates (\<open>div\<close>, \<open>a\<close>, \<open>img\<close>) and their closing tags.
\<close>

fun template_tags_only :: "pystr \<Rightarrow> bool" where
  "template_tags_only [] = True"
| "template_tags_only [c] = (c \<noteq> 60)"
| "template_tags_only (c # d # s) = ((c = 60 \<longrightarrow> d \<in> {100, 47, 97, 105}) \<and> template_tags_only (d # s))"

section \<open>An instance of the interpreter's operations\<close>

text \<open>
  Statements below hold for every value of \<open>builtins\<close>. To apply them to concrete inputs, this
  instance has one float, written \<open>0.0\<close>, and accepts no text as a float literal.
\<close>

definition sample_builtins :: "unit builtins" where
  "sample_builtins =
     \<lparr>float_str = (\<lambda>x. ustr ''0.0''),
      float_truth = (\<lambda>x. False),
      float_lt = (\<lambda>a b. (case a of NInt i \<Rightarrow> i | NFloat x \<Rightarrow> 0) < (case b of NInt i \<Rightarrow> i | NFloat x \<Rightarrow> 0)),
      float_sum = (\<lambda>xs. Inr ()),
      float_mean_1f = (\<lambda>x n. ustr ''0.0''),
      str_repr = (\<lambda>s. [39] @ s @ [39]),
      str_is_float = (\<lambda>s. False),
      stats_type_error = (\<lambda>xs. ustr ''unsupported operand type(s)'')\<rparr>"

text \<open>
  Two networks for the same purpose. On the first the preview service refuses the connection
  and every address answers the JSON document \<open>{"n": 5}\<close>, which is no XML. On the second the
  preview service answers \<open>{"feed": "F"}\<close>.
\<close>

definition sample_response :: "unit json \<Rightarrow> unit response" where
  "sample_response body =
     \<lparr>raise_for_status = None, json_body = Inr body,
      xml_root = Inl (Exn ParseError (ustr ''syntax error: line 1, column 0''))\<rparr>"

definition sample_network :: "unit network" where
  "sample_network =
     \<lparr>http_get = (\<lambda>url headers t. Inr (sample_response (JDict [(ustr ''n'', JInt 5)]))),
      http_post = (\<lambda>url body headers t. Inl (Exn ConnectionError (ustr ''Connection refused'')))\<rparr>"

definition preview_network :: "unit network" where
  "preview_network =
     \<lparr>http_get = (\<lambda>url headers t. Inr (sample_response (JDict [(ustr ''n'', JInt 5)]))),
      http_post = (\<lambda>url body headers t. Inr (sample_response (JDict [(ustr ''feed'', JStr (ustr ''F''))])))\<rparr>"

definition sample_config :: "pystr \<Rightarrow> pystr \<Rightarrow> pystr \<Rightarrow> (pystr \<times> pystr) list \<Rightarrow> unit config" where
  "sample_config source url template mapping =
     \<lparr>data_source = source, api_url = url, api_headers = [], template_type = template,
      data_mapping = mapping, rss_config = [], timeout = JInt 30\<rparr>"

section \<open>Properties of the path resolver and the mapping applier\<close>

subsection \<open>Dictionaries\<close>

lemma keys_dict_set:
  "map fst (dict_set d k v) = (if k \<in> set (map fst d) then map fst d else map fst d @ [k])"
proof (induction d)
  case Nil
  then show ?case by simp
next
  case (Cons a d)
  obtain k' v' where a: "a = (k', v')" by (cases a)
  show ?case using Cons.IH by (auto simp: a)
qed

lemma map_of_dict_set: "map_of (dict_set d k v) = (map_of d)(k \<mapsto> v)"
  by (induction d) (auto simp: fun_eq_iff)

lemma distinct_dict_set: "distinct (map fst d) \<Longrightarrow> distinct (map fst (dict_set d k v))"
  by (simp add: keys_dict_set)

lemma dict_get_has: "dict_get d k = Some v \<Longrightarrow> dict_has d k"
  by (auto simp: dict_get_def dict_has_def dest!: map_of_SomeD intro: rev_image_eqI)

lemma dict_get_None_iff: "dict_get d k = None \<longleftrightarrow> \<not> dict_has d k"
  by (simp add: dict_get_def dict_has_def map_of_eq_None_iff)

subsection \<open>The loop of the mapping applier\<close>

lemma mapping_loop_keys:
  "set (map fst (mapping_loop py data m acc)) = set (map fst acc) \<union> set (map fst m)"
proof (induction m arbitrary: acc)
  case Nil
  then show ?case by simp
next
  case (Cons a m)
  obtain k p where a: "a = (k, p)" by (cases a)
  have "set (map fst (dict_set acc k v)) = insert k (set (map fst acc))" for v
    by (auto simp: keys_dict_set)
  then show ?case using Cons.IH by (simp add: a)
qed

lemma mapping_loop_distinct:
  "distinct (map fst acc) \<Longrightarrow> distinct (map fst (mapping_loop py data m acc))"
  by (induction m arbitrary: acc) (auto simp: distinct_dict_set)

lemma mapping_loop_order:
  "distinct (map fst m) \<Longrightarrow> set (map fst acc) \<inter> set (map fst m) = {} \<Longrightarrow>
   map fst (mapping_loop py data m acc) = map fst acc @ map fst m"
proof (induction m arbitrary: acc)
  case Nil
  then show ?case by simp
next
  case (Cons a m)
  obtain k p where a: "a = (k, p)" by (cases a)
  from Cons.prems have k: "k \<notin> set (map fst acc)" "k \<notin> set (map fst m)"
    and d: "distinct (map fst m)" and disj: "set (map fst acc) \<inter> set (map fst m) = {}"
    by (auto simp: a)
  let ?acc = "dict_set acc k (case extract_json_path py data p of Inr value \<Rightarrow> value | Inl e \<Rightarrow> JNull)"
  have keys: "map fst ?acc = map fst acc @ [k]" using k by (simp add: keys_dict_set)
  have "set (map fst ?acc) \<inter> set (map fst m) = {}" using k disj by (auto simp: keys)
  from Cons.IH [OF d this] show ?case by (simp add: a keys)
qed

lemma mapping_loop_lookup:
  "distinct (map fst m) \<Longrightarrow>
   map_of (mapping_loop py data m acc) k =
     (case map_of m k of
        Some p \<Rightarrow> Some (case extract_json_path py data p of Inr value \<Rightarrow> value | Inl e \<Rightarrow> JNull)
      | None \<Rightarrow> map_of acc k)"
proof (induction m arbitrary: acc)
  case Nil
  then show ?case by simp
next
  case (Cons a m)
  obtain k' p' where a: "a = (k', p')" by (cases a)
  from Cons.prems have d: "distinct (map fst m)" and nk: "k' \<notin> fst ` set m" by (auto simp: a)
  have none: "map_of m k' = None" using nk by (simp add: map_of_eq_None_iff)
  show ?case
    using Cons.IH [OF d] none
    by (auto simp: a map_of_dict_set split: option.splits)
qed

text \<open>
  C2. The mapping applier is a total function (no path resolution can make it raise), the
  result has exactly the keys of the mapping table, each once and in the table's order, and
  the value of a field is the resolved value when its path resolves and \<open>None\<close> when the
  resolution raises. The table is a dictionary, so its keys are distinct.
\<close>

theorem apply_data_mapping_keys_and_values:
  "set (map fst (apply_data_mapping py m data)) = set (map fst m)
   \<and> distinct (map fst (apply_data_mapping py m data))
   \<and> (distinct (map fst m) \<longrightarrow>
        map fst (apply_data_mapping py m data) = map fst m
        \<and> (\<forall>field path. (field, path) \<in> set m \<longrightarrow>
              (\<forall>e. extract_json_path py data path = Inl e \<longrightarrow>
                   dict_get (apply_data_mapping py m data) field = Some JNull)
              \<and> (\<forall>v. extract_json_path py data path = Inr v \<longrightarrow>
                   dict_get (apply_data_mapping py m data) field = Some v)))"
proof (intro conjI impI allI)
  show "set (map fst (apply_data_mapping py m data)) = set (map fst m)"
    using mapping_loop_keys [of py data m "[]"] by (simp add: apply_data_mapping_def)
  show "distinct (map fst (apply_data_mapping py m data))"
    using mapping_loop_distinct [of "[]" py data m] by (simp add: apply_data_mapping_def)
next
  assume "distinct (map fst m)"
  then show "map fst (apply_data_mapping py m data) = map fst m"
    by (simp add: apply_data_mapping_def mapping_loop_order)
next
  fix field path e
  assume d: "distinct (map fst m)" and mem: "(field, path) \<in> set m"
    and r: "extract_json_path py data path = Inl e"
  from d mem have "map_of m field = Some path" by simp
  with d r show "dict_get (apply_data_mapping py m data) field = Some JNull"
    by (simp add: apply_data_mapping_def dict_get_def mapping_loop_lookup)
next
  fix field path v
  assume d: "distinct (map fst m)" and mem: "(field, path) \<in> set m"
    and r: "extract_json_path py data path = Inr v"
  from d mem have "map_of m field = Some path" by simp
  with d r show "dict_get (apply_data_mapping py m data) field = Some v"
    by (simp add: apply_data_mapping_def dict_get_def mapping_loop_lookup)
qed

subsection \<open>Integers as text\<close>

lemma nat_digits_all_digits: "list_all is_ascii_digit (nat_digits n)"
proof (induction n rule: nat_digits.induct)
  case (1 n)
  show ?case
  proof (cases "n < 10")
    case True
    then show ?thesis by (subst nat_digits.simps) (simp add: is_ascii_digit_def)
  next
    case False
    have "n mod 10 < 10" by simp
    then have "is_ascii_digit (48 + n mod 10)" unfolding is_ascii_digit_def by linarith
    with False 1 show ?thesis by (subst nat_digits.simps) simp
  qed
qed

lemma nat_digits_nonempty: "nat_digits n \<noteq> []"
  by (subst nat_digits.simps) simp

lemma digits_value_all_digits:
  "list_all is_ascii_digit ds \<Longrightarrow>
   digits_value acc ds = Some (foldl (\<lambda>a c. a * 10 + (c - 48)) acc ds)"
proof (induction acc ds rule: digits_value.induct)
  case (1 acc)
  then show ?case by simp
next
  case (2 acc c)
  then show ?case by simp
next
  case (3 acc c d ds)
  from "3.prems" have c: "is_ascii_digit c" and d: "is_ascii_digit d" and ds: "list_all is_ascii_digit ds"
    by simp_all
  from d have nd: "d \<noteq> 95" by (auto simp: is_ascii_digit_def)
  from "3.IH"(2) [OF c nd] d ds
  have "digits_value (acc * 10 + (c - 48)) (d # ds) =
          Some (foldl (\<lambda>a c. a * 10 + (c - 48)) (acc * 10 + (c - 48)) (d # ds))"
    by simp
  with c nd show ?case by simp
qed

lemma foldl_nat_digits:
  "foldl (\<lambda>a c. a * 10 + (c - 48)) acc (nat_digits n) = acc * 10 ^ length (nat_digits n) + n"
proof (induction n arbitrary: acc rule: nat_digits.induct)
  case (1 n)
  show ?case
  proof (cases "n < 10")
    case True
    then show ?thesis by (subst (1 2) nat_digits.simps) simp
  next
    case False
    have "foldl (\<lambda>a c. a * 10 + (c - 48)) acc (nat_digits (n div 10) @ [48 + n mod 10])
          = (acc * 10 ^ length (nat_digits (n div 10)) + n div 10) * 10 + n mod 10"
      using 1 [OF False] by simp
    also have "\<dots> = acc * 10 ^ (length (nat_digits (n div 10)) + 1) + n"
      by (simp add: algebra_simps)
    finally show ?thesis using False by (subst (1 2) nat_digits.simps) simp
  qed
qed

lemma digits_value_nat_digits: "digits_value 0 (nat_digits n) = Some n"
  by (simp add: digits_value_all_digits nat_digits_all_digits foldl_nat_digits)

lemma digit_not_space: "is_ascii_digit c \<Longrightarrow> \<not> is_space c"
  by (auto simp: is_ascii_digit_def is_space_def)

lemma strip_no_space_ends:
  assumes s: "s \<noteq> []" and h: "\<not> is_space (hd s)" and l: "\<not> is_space (last s)"
  shows "strip s = s"
proof -
  from s h have 1: "dropWhile is_space s = s" by (cases s) simp_all
  from s l have "dropWhile is_space (rev s) = rev s" by (cases "rev s") (simp_all add: last_rev hd_rev)
  with 1 show ?thesis by (simp add: strip_def)
qed

lemma nat_digits_hd: "is_ascii_digit (hd (nat_digits n))"
  using nat_digits_all_digits [of n] nat_digits_nonempty [of n]
  by (cases "nat_digits n") simp_all

lemma nat_digits_last: "is_ascii_digit (last (nat_digits n))"
  using nat_digits_all_digits [of n] nat_digits_nonempty [of n]
  by (simp add: list_all_iff)

text \<open>Reading back the decimal text of an integer gives the integer.\<close>

lemma parse_int_int_str: "parse_int (int_str i) = Some i"
proof (cases "i < 0")
  case True
  have "\<not> is_space 45" by (simp add: is_space_def)
  then have "strip (45 # nat_digits (nat (- i))) = 45 # nat_digits (nat (- i))"
    using nat_digits_last [of "nat (- i)"] nat_digits_nonempty [of "nat (- i)"]
    by (intro strip_no_space_ends) (simp_all add: digit_not_space)
  with True show ?thesis
    by (simp add: parse_int_def int_str_def nat_digits_nonempty digits_value_nat_digits)
next
  case False
  let ?ds = "nat_digits (nat i)"
  have s: "strip ?ds = ?ds"
    using nat_digits_last [of "nat i"] nat_digits_hd [of "nat i"] nat_digits_nonempty [of "nat i"]
    by (intro strip_no_space_ends) (simp_all add: digit_not_space)
  obtain c cs where cs: "?ds = c # cs" using nat_digits_nonempty [of "nat i"] by (cases ?ds) auto
  have "is_ascii_digit c" using nat_digits_hd [of "nat i"] cs by simp
  then have "c \<noteq> 45" "c \<noteq> 43" by (auto simp: is_ascii_digit_def)
  moreover have "digits_value 0 (c # cs) = Some (nat i)"
    using digits_value_nat_digits [of "nat i"] cs by simp
  ultimately show ?thesis using False s cs
    by (simp add: parse_int_def int_str_def)
qed

lemma int_str_chars: "c \<in> set (int_str i) \<Longrightarrow> c = 45 \<or> is_ascii_digit c"
  using nat_digits_all_digits by (auto simp: int_str_def list_all_iff split: if_splits)

lemma int_str_nonempty: "int_str i \<noteq> []"
  by (simp add: int_str_def nat_digits_nonempty)

lemma int_str_last: "is_ascii_digit (last (int_str i))"
  using nat_digits_last by (simp add: int_str_def nat_digits_nonempty)

subsection \<open>Splitting a path\<close>

lemma split_on_no_sep: "c \<notin> set s \<Longrightarrow> split_on c s = [s]"
  by (induction s) auto

lemma rstrip_char_append:
  "s \<noteq> [] \<Longrightarrow> last s \<noteq> c \<Longrightarrow> rstrip_char c (s @ [c]) = s"
  by (cases "rev s") (auto simp: rstrip_char_def last_rev)

lemma split_first_at:
  "c \<notin> set a \<Longrightarrow> split_first c (a @ c # b) = (a, b)"
  by (induction a) (auto simp: split_first_def)

lemma path_step_index:
  assumes name: "uc CHR ''['' \<notin> set name"
    and cur: "(if name \<noteq> [] then subscript_key py current name else Inr current) = Inr (JList xs)"
    and i: "- int (length xs) \<le> i" "i < 0"
  shows "path_step py current (name @ [uc CHR ''[''] @ int_str i @ [uc CHR '']''])
         = Inr (xs ! nat (int (length xs) + i))"
proof -
  let ?part = "name @ [uc CHR ''[''] @ int_str i @ [uc CHR '']'']"
  have sp: "split_first (uc CHR ''['') ?part = (name, int_str i @ [uc CHR '']''])"
    using name by (simp add: split_first_at)
  have "last (int_str i) \<noteq> uc CHR '']''"
    using int_str_last [of i] by (auto simp: is_ascii_digit_def uc_def)
  then have rs: "rstrip_char (uc CHR '']'') (int_str i @ [uc CHR '']'']) = int_str i"
    by (simp add: rstrip_char_append int_str_nonempty)
  have ix: "subscript_index (JList xs) i = Inr (xs ! nat (int (length xs) + i))"
    using i by (simp add: subscript_index_def seq_index_def)
  have mem: "uc CHR ''['' \<in> set ?part \<and> uc CHR '']'' \<in> set ?part"
    by simp
  have "path_step py current ?part =
        (case (if name \<noteq> [] then subscript_key py current name else Inr current) of
           Inl e \<Rightarrow> Inl e
         | Inr cur \<Rightarrow>
            (case parse_int (int_str i) of
               None \<Rightarrow> Inl (invalid_index (int_str i))
             | Some index \<Rightarrow>
                (case subscript_index cur index of
                   Inr v \<Rightarrow> Inr v
                 | Inl e \<Rightarrow>
                    if exn_class e \<in> {ValueError, IndexError, TypeError}
                    then Inl (invalid_index (int_str i)) else Inl e)))"
    unfolding path_step_def if_P [OF mem] sp prod.case Let_def rs ..
  then show ?thesis
    by (simp only: cur parse_int_int_str ix sum.case option.case)
qed

text \<open>
  C3. A path without dot or bracket that is a key of the data resolves to the value of the
  key, also when it reads as a number; a path of digits that is no key of the data resolves
  to its own text. So \<open>"42"\<close> gives the text \<open>"42"\<close> on \<open>{}\<close> and \<open>"x"\<close> on \<open>{"42": "x"}\<close>.
\<close>

theorem single_key_lookup_wins_over_literal:
  "extract_json_path py (JDict []) (ustr ''42'') = Inr (JStr (ustr ''42''))
   \<and> extract_json_path py (JDict [(ustr ''42'', JStr (ustr ''x''))]) (ustr ''42'')
       = Inr (JStr (ustr ''x''))
   \<and> (path \<noteq> [] \<and> uc CHR ''.'' \<notin> set path \<and> uc CHR ''['' \<notin> set path \<and> uc CHR '']'' \<notin> set path
        \<longrightarrow> (dict_get d path = Some v \<longrightarrow> extract_json_path py (JDict d) path = Inr v)
          \<and> (dict_get d path = None \<and> isdigit path
                \<longrightarrow> extract_json_path py (JDict d) path = Inr (JStr path)))"
proof (intro conjI impI)
  show "extract_json_path py (JDict []) (ustr ''42'') = Inr (JStr (ustr ''42''))"
    by (simp add: extract_json_path_def ustr_def uc_def json_has_key_def dict_has_def
        isdigit_def is_ascii_digit_def)
  show "extract_json_path py (JDict [(ustr ''42'', JStr (ustr ''x''))]) (ustr ''42'')
        = Inr (JStr (ustr ''x''))"
    by (simp add: extract_json_path_def ustr_def uc_def json_has_key_def dict_has_def
        subscript_key_def dict_get_def)
next
  assume p: "path \<noteq> [] \<and> uc CHR ''.'' \<notin> set path \<and> uc CHR ''['' \<notin> set path \<and> uc CHR '']'' \<notin> set path"
    and g: "dict_get d path = Some v"
  from g have "dict_has d path" by (rule dict_get_has)
  with p g show "extract_json_path py (JDict d) path = Inr v"
    by (simp add: extract_json_path_def json_has_key_def subscript_key_def)
next
  assume p: "path \<noteq> [] \<and> uc CHR ''.'' \<notin> set path \<and> uc CHR ''['' \<notin> set path \<and> uc CHR '']'' \<notin> set path"
    and g: "dict_get d path = None \<and> isdigit path"
  from g have "\<not> dict_has d path" by (simp add: dict_get_None_iff)
  with p g show "extract_json_path py (JDict d) path = Inr (JStr path)"
    by (simp add: extract_json_path_def json_has_key_def)
qed

theorem single_key_lookup_wins_over_literal_witness:
  "extract_json_path sample_builtins (JDict [(ustr ''7'', JInt 1)]) (ustr ''7'') = Inr (JInt 1)
   \<and> extract_json_path sample_builtins (JDict [(ustr ''7'', JInt 1)]) (ustr ''8'') = Inr (JStr (ustr ''8''))"
proof -
  have a: "dict_get [(ustr ''7'', JInt 1)] (ustr ''7'') = Some (JInt 1 :: unit json)"
    by (simp add: dict_get_def)
  have b: "dict_get [(ustr ''7'', JInt 1 :: unit json)] (ustr ''8'') = None \<and> isdigit (ustr ''8'')"
    by (simp add: dict_get_def ustr_def isdigit_def is_ascii_digit_def)
  have p7: "ustr ''7'' \<noteq> [] \<and> uc CHR ''.'' \<notin> set (ustr ''7'') \<and> uc CHR ''['' \<notin> set (ustr ''7'')
            \<and> uc CHR '']'' \<notin> set (ustr ''7'')"
    by (simp add: ustr_def uc_def)
  have p8: "ustr ''8'' \<noteq> [] \<and> uc CHR ''.'' \<notin> set (ustr ''8'') \<and> uc CHR ''['' \<notin> set (ustr ''8'')
            \<and> uc CHR '']'' \<notin> set (ustr ''8'')"
    by (simp add: ustr_def uc_def)
  from single_key_lookup_wins_over_literal [of sample_builtins "ustr ''7''" "[(ustr ''7'', JInt 1)]" "JInt 1"] a p7
  have 1: "extract_json_path sample_builtins (JDict [(ustr ''7'', JInt 1)]) (ustr ''7'') = Inr (JInt 1)"
    by blast
  from single_key_lookup_wins_over_literal [of sample_builtins "ustr ''8''" "[(ustr ''7'', JInt 1)]" "JNull"] b p8
  have 2: "extract_json_path sample_builtins (JDict [(ustr ''7'', JInt 1)]) (ustr ''8'') = Inr (JStr (ustr ''8''))"
    by blast
  from 1 2 show ?thesis by simp
qed

text \<open>
  C6. The path \<open>a.b[0].c\<close> resolves to 5 on \<open>{"a": {"b": [{"c": 5}]}}\<close>. On
  \<open>{"a": {"b": []}}\<close> the index is out of range and the resolver raises the \<open>ValueError\<close>
  "Invalid array index: 0", its path error, and no \<open>IndexError\<close>.
\<close>

theorem nested_path_round_trip:
  "extract_json_path py
     (JDict [(ustr ''a'', JDict [(ustr ''b'', JList [JDict [(ustr ''c'', JInt 5)]])])])
     (ustr ''a.b[0].c'') = Inr (JInt 5)
   \<and> extract_json_path py (JDict [(ustr ''a'', JDict [(ustr ''b'', JList [])])]) (ustr ''a.b[0].c'')
       = Inl (Exn ValueError (ustr ''Invalid array index: 0''))"
  by (simp add: extract_json_path_def ustr_def uc_def json_has_key_def dict_has_def isdigit_def
      is_ascii_digit_def path_step_def split_first_def rstrip_char_def subscript_key_def
      dict_get_def parse_int_def strip_def is_space_def subscript_index_def seq_index_def
      invalid_index_def)

text \<open>
  C9. A segment \<open>name[i]\<close> with \<open>-len(xs) \<le> i < 0\<close>, where \<open>name\<close> leads to the list \<open>xs\<close> (or
  is empty and the data is \<open>xs\<close>), resolves to the element \<open>len(xs) + i\<close> of \<open>xs\<close>, counted
  from the end.
\<close>

theorem negative_index_counts_from_end:
  assumes "uc CHR ''['' \<notin> set name" and "uc CHR ''.'' \<notin> set name"
    and "(if name \<noteq> [] then subscript_key py data name else Inr data) = Inr (JList xs)"
    and "- int (length xs) \<le> i" and "i < 0"
  shows "extract_json_path py data (name @ [uc CHR ''[''] @ int_str i @ [uc CHR '']''])
         = Inr (xs ! nat (int (length xs) + i))"
proof -
  let ?path = "name @ [uc CHR ''[''] @ int_str i @ [uc CHR '']'']"
  have nodot: "uc CHR ''.'' \<notin> set ?path"
    using assms(2) int_str_chars [of "uc CHR ''.''" i]
    by (auto simp: uc_def is_ascii_digit_def)
  have br: "uc CHR ''['' \<in> set ?path" by simp
  have "extract_json_path py data ?path = path_loop py data (split_on (uc CHR ''.'') ?path)"
    unfolding extract_json_path_def using br by simp
  also have "\<dots> = path_loop py data [?path]"
    by (simp only: split_on_no_sep [OF nodot])
  also have "\<dots> = Inr (xs ! nat (int (length xs) + i))"
    using path_step_index [OF assms(1) assms(3) assms(4) assms(5)] by simp
  finally show ?thesis .
qed

theorem negative_index_counts_from_end_witness:
  "extract_json_path sample_builtins (JDict [(ustr ''items'', JList [JInt 1, JInt 2, JInt 3])])
     (ustr ''items[-1]'') = Inr (JInt 3)"
proof -
  have p: "ustr ''items'' @ [uc CHR ''[''] @ int_str (- 1) @ [uc CHR '']''] = ustr ''items[-1]''"
    by (simp add: ustr_def uc_def int_str_def nat_digits.simps)
  have n: "uc CHR ''['' \<notin> set (ustr ''items'')" "uc CHR ''.'' \<notin> set (ustr ''items'')"
    by (simp_all add: ustr_def uc_def)
  have c: "(if ustr ''items'' \<noteq> []
            then subscript_key sample_builtins (JDict [(ustr ''items'', JList [JInt 1, JInt 2, JInt 3])]) (ustr ''items'')
            else Inr (JDict [(ustr ''items'', JList [JInt 1, JInt 2, JInt 3])]))
           = Inr (JList [JInt 1, JInt 2, JInt 3])"
    by (simp add: ustr_def subscript_key_def dict_get_def)
  have i: "- int (length [JInt 1, JInt 2, JInt 3 :: unit json]) \<le> - 1" "(- 1 :: int) < 0"
    by simp_all
  from negative_index_counts_from_end [OF n c i]
  show ?thesis unfolding p by simp
qed

theorem apply_data_mapping_keys_and_values_witness:
  "map fst (apply_data_mapping sample_builtins [(ustr ''t'', ustr ''a''), (ustr ''u'', ustr ''b.c'')]
      (JDict [(ustr ''a'', JInt 1)])) = [ustr ''t'', ustr ''u'']
   \<and> dict_get (apply_data_mapping sample_builtins [(ustr ''t'', ustr ''a''), (ustr ''u'', ustr ''b.c'')]
        (JDict [(ustr ''a'', JInt 1)])) (ustr ''t'') = Some (JInt 1)
   \<and> dict_get (apply_data_mapping sample_builtins [(ustr ''t'', ustr ''a''), (ustr ''u'', ustr ''b.c'')]
        (JDict [(ustr ''a'', JInt 1)])) (ustr ''u'') = Some JNull"
proof -
  let ?m = "[(ustr ''t'', ustr ''a''), (ustr ''u'', ustr ''b.c'')]"
  let ?data = "JDict [(ustr ''a'', JInt 1)] :: unit json"
  have d: "distinct (map fst ?m)" by (simp add: ustr_def)
  have a: "extract_json_path sample_builtins ?data (ustr ''a'') = Inr (JInt 1)"
    by (simp add: extract_json_path_def ustr_def uc_def json_has_key_def dict_has_def
        subscript_key_def dict_get_def)
  have b: "extract_json_path sample_builtins ?data (ustr ''b.c'') = Inl (Exn KeyError (str_repr sample_builtins (ustr ''b'')))"
    by (simp add: extract_json_path_def ustr_def uc_def path_step_def subscript_key_def dict_get_def)
  have t: "(ustr ''t'', ustr ''a'') \<in> set ?m" and u: "(ustr ''u'', ustr ''b.c'') \<in> set ?m"
    by simp_all
  note main = apply_data_mapping_keys_and_values [of sample_builtins ?m ?data]
  from main d have k: "map fst (apply_data_mapping sample_builtins ?m ?data) = map fst ?m" by blast
  from main d t a have 1: "dict_get (apply_data_mapping sample_builtins ?m ?data) (ustr ''t'') = Some (JInt 1)"
    by blast
  from main d u b have 2: "dict_get (apply_data_mapping sample_builtins ?m ?data) (ustr ''u'') = Some JNull"
    by blast
  from k 1 2 show ?thesis by simp
qed

section \<open>Properties of the templates\<close>

subsection \<open>Literals\<close>

lemma ustr_eq_iff [simp]: "ustr a = ustr b \<longleftrightarrow> a = b"
  unfolding ustr_def by (rule inj_map_eq_map) (simp add: inj_on_def)

lemma ustr_Nil [simp]: "ustr [] = []"
  by (simp add: ustr_def)

lemma ustr_eq_Nil [simp]: "ustr a = [] \<longleftrightarrow> a = []"
  by (simp add: ustr_def)

lemma get_or_has: "dict_has d k \<Longrightarrow> get_or d k a = get_or d k b"
  by (auto simp: get_or_def dict_get_None_iff split: option.splits)

subsection \<open>The clock\<close>

lemma render_time_display_fixed:
  "dict_has data (ustr ''time'') \<Longrightarrow> dict_has data (ustr ''date'') \<Longrightarrow>
   render_time_display py clk1 data = render_time_display py clk2 data"
  unfolding render_time_display_def
  by (simp only: get_or_has [of data "ustr ''time''" "JStr (now_time clk1)" "JStr (now_time clk2)"]
      get_or_has [of data "ustr ''date''" "JStr (now_date clk1)" "JStr (now_date clk2)"])

lemma html_escape_plain_time:
  "html_escape (ustr ''00:00:00'') = ustr ''00:00:00''"
  "html_escape (ustr ''00:00:01'') = ustr ''00:00:01''"
  by (simp_all add: html_escape_def escape_char_def ustr_def uc_def)

text \<open>
  C4, as the code has it. The fragment is a function of the template identifier, the
  mapped data and the clock. It does not depend on the clock for any template other than
  \<open>time_display\<close>, nor for \<open>time_display\<close> when the mapped data has the keys \<open>time\<close> and
  \<open>date\<close>: the clock is read for the defaults of these two fields only.
\<close>

theorem render_template_clock_only_in_time_display:
  "tid \<noteq> ustr ''time_display''
     \<or> (dict_has data (ustr ''time'') \<and> dict_has data (ustr ''date''))
   \<Longrightarrow> render_template py clk1 tid data = render_template py clk2 tid data"
  unfolding render_template_def
  using render_time_display_fixed [of data py clk1 clk2] by auto

theorem render_template_clock_only_in_time_display_witness:
  "render_template sample_builtins \<lparr>now_time = ustr ''00:00:00'', now_date = ustr ''2024-01-01''\<rparr>
     (ustr ''time_display'') [(ustr ''time'', JStr (ustr ''noon'')), (ustr ''date'', JNull)]
   = render_template sample_builtins \<lparr>now_time = ustr ''00:00:01'', now_date = ustr ''2024-01-02''\<rparr>
     (ustr ''time_display'') [(ustr ''time'', JStr (ustr ''noon'')), (ustr ''date'', JNull)]"
proof -
  have "dict_has [(ustr ''time'', JStr (ustr ''noon'')), (ustr ''date'', JNull :: unit json)] (ustr ''time'')
        \<and> dict_has [(ustr ''time'', JStr (ustr ''noon'')), (ustr ''date'', JNull :: unit json)] (ustr ''date'')"
    by (simp add: dict_has_def)
  then show ?thesis
    by (intro render_template_clock_only_in_time_display disjI2)
qed

text \<open>
  C4, as the specification has it, fails: with no \<open>time\<close> in the mapped data the time
  display shows the clock, so the same identifier and data give two fragments at two times.
\<close>

theorem render_time_display_reads_clock:
  "render_template sample_builtins \<lparr>now_time = ustr ''00:00:00'', now_date = ustr ''2024-01-01''\<rparr>
     (ustr ''time_display'') []
   \<noteq> render_template sample_builtins \<lparr>now_time = ustr ''00:00:01'', now_date = ustr ''2024-01-01''\<rparr>
     (ustr ''time_display'') []"
  by (simp add: render_template_def render_time_display_def get_or_def dict_get_def safe_str_def
      py_str_def html_escape_plain_time)

subsection \<open>Containment\<close>

lemma starts_with_iff_prefix: "starts_with p s \<longleftrightarrow> prefix p s"
  by (induction p s rule: starts_with.induct) auto

lemma contains_iff_sublist: "contains p s \<longleftrightarrow> sublist p s"
proof (induction s)
  case Nil
  then show ?case by simp
next
  case (Cons x xs)
  show ?case
  proof (cases p)
    case Nil
    then show ?thesis by simp
  next
    case (Cons y ys)
    then show ?thesis using Cons.IH
      by (simp add: starts_with_iff_prefix sublist_Cons_right)
  qed
qed

lemma contains_middle: "contains p (a @ p @ b)"
  by (simp add: contains_iff_sublist)

lemma contains_appendI1: "contains p a \<Longrightarrow> contains p (a @ b)"
  by (auto simp: contains_iff_sublist sublist_def) (metis append.assoc)

lemma contains_appendI2: "contains p b \<Longrightarrow> contains p (a @ b)"
  by (auto simp: contains_iff_sublist sublist_def) (metis append.assoc)

subsection \<open>The headlines\<close>

lemma rss_headline_item_renders: "\<exists>h. rss_headline_item py item = Inr h"
  by (cases item) (simp_all add: rss_headline_item_def Let_def)

lemma collect_Nil_iff: "collect rs = [] \<longleftrightarrow> (\<forall>r \<in> set rs. \<exists>e. r = Inl e)"
proof (induction rs)
  case Nil
  then show ?case by simp
next
  case (Cons r rs)
  then show ?case by (cases r) auto
qed

text \<open>
  C10. When the items of the headlines template are a list none of whose first ten elements
  renders, the fragment is the frame of the template around the text "No headlines
  available", and no error fragment. Every element renders, so such a list is the empty list.
\<close>

theorem rss_headlines_empty_list:
  assumes items: "get_or data (ustr ''items'') (JList []) = JList xs"
    and none: "\<forall>x \<in> set (take 10 xs). \<exists>e. rss_headline_item py x = Inl e"
  shows \<open>render_template py clk (ustr ''rss_headlines'') data =
           Inr (ustr ''\<newline>        <div class="widget-content">''
                @ ustr ''\<newline>            <div class="title mb-md">''
                @ html_escape (safe_str py (get_or data (ustr ''feed_title'') (JStr (ustr ''RSS Feed''))))
                @ ustr ''</div>''
                @ ustr ''\<newline>            <div class="metrics-grid">''
                @ ustr ''\<newline>                ''
                @ ustr ''<div class="description">No headlines available</div>''
                @ ustr ''\<newline>            </div>''
                @ ustr ''\<newline>        </div>''
                @ ustr ''\<newline>        '')
         \<and> (\<exists>out. render_template py clk (ustr ''rss_headlines'') data = Inr out
                \<and> contains (ustr ''No headlines available'') out)
         \<and> xs = []\<close>
proof -
  from none have c: "collect (map (rss_headline_item py) (take 10 xs)) = []"
    by (simp add: collect_Nil_iff)
  have eq: \<open>render_template py clk (ustr ''rss_headlines'') data =
           Inr (ustr ''\<newline>        <div class="widget-content">''
                @ ustr ''\<newline>            <div class="title mb-md">''
                @ html_escape (safe_str py (get_or data (ustr ''feed_title'') (JStr (ustr ''RSS Feed''))))
                @ ustr ''</div>''
                @ ustr ''\<newline>            <div class="metrics-grid">''
                @ ustr ''\<newline>                ''
                @ ustr ''<div class="description">No headlines available</div>''
                @ ustr ''\<newline>            </div>''
                @ ustr ''\<newline>        </div>''
                @ ustr ''\<newline>        '')\<close>
    by (simp add: render_template_def render_rss_headlines_def items c)
  have lit: \<open>ustr ''<div class="description">No headlines available</div>''
             = ustr ''<div class="description">'' @ ustr ''No headlines available'' @ ustr ''</div>''\<close>
    by (simp add: ustr_def)
  have \<open>contains (ustr ''No headlines available'')
               (ustr ''\<newline>        <div class="widget-content">''
                @ ustr ''\<newline>            <div class="title mb-md">''
                @ html_escape (safe_str py (get_or data (ustr ''feed_title'') (JStr (ustr ''RSS Feed''))))
                @ ustr ''</div>''
                @ ustr ''\<newline>            <div class="metrics-grid">''
                @ ustr ''\<newline>                ''
                @ ustr ''<div class="description">No headlines available</div>''
                @ ustr ''\<newline>            </div>''
                @ ustr ''\<newline>        </div>''
                @ ustr ''\<newline>        '')\<close>
    unfolding lit by (intro contains_appendI2 contains_appendI1 contains_middle)
  with eq have 2: "\<exists>out. render_template py clk (ustr ''rss_headlines'') data = Inr out
                \<and> contains (ustr ''No headlines available'') out"
    by (intro exI conjI)
  have "take 10 xs = []"
  proof (rule ccontr)
    assume "take 10 xs \<noteq> []"
    then obtain x where "x \<in> set (take 10 xs)" by (cases "take 10 xs") auto
    with none rss_headline_item_renders [of py x] show False by auto
  qed
  then have 3: "xs = []" by (cases xs) auto
  from eq 2 3 show ?thesis by blast
qed

theorem rss_headlines_empty_list_witness:
  "contains (ustr ''No headlines available'')
     (case render_template sample_builtins \<lparr>now_time = [], now_date = []\<rparr> (ustr ''rss_headlines'')
             [(ustr ''feed_title'', JStr (ustr ''Feed'')), (ustr ''items'', JList [])] of
        Inr out \<Rightarrow> out | Inl e \<Rightarrow> [])"
proof -
  let ?data = "[(ustr ''feed_title'', JStr (ustr ''Feed'')), (ustr ''items'', JList [])] :: (pystr \<times> unit json) list"
  have items: "get_or ?data (ustr ''items'') (JList []) = JList []"
    by (simp add: get_or_def dict_get_def)
  have none: "\<forall>x \<in> set (take 10 ([] :: unit json list)). \<exists>e. rss_headline_item sample_builtins x = Inl e"
    by simp
  from rss_headlines_empty_list [OF items none, of "\<lparr>now_time = [], now_date = []\<rparr>"]
  obtain out where "render_template sample_builtins \<lparr>now_time = [], now_date = []\<rparr>
      (ustr ''rss_headlines'') ?data = Inr out" and "contains (ustr ''No headlines available'') out"
    by blast
  then show ?thesis by simp
qed

subsection \<open>The chart\<close>

lemma int_truediv_overflow:
  "(2 ^ 1024 - 2 ^ 970) * b \<le> nat \<bar>a\<bar> \<Longrightarrow>
   int_truediv a b = Inl (Exn OverflowError (ustr ''integer division result too large for a float''))"
  by (simp add: int_truediv_def)

text \<open>
  C8, as the specification has it, fails on a list of numbers whose mean is beyond the
  doubles: \<open>sum(xs) / len(xs)\<close> raises \<open>OverflowError\<close> and the template gives no fragment.
\<close>

theorem chart_mean_overflows:
  "render_template sample_builtins \<lparr>now_time = [], now_date = []\<rparr> (ustr ''chart_simple'')
     [(ustr ''data_points'', JList [JInt (10 ^ 309)])]
   = Inl (Exn OverflowError (ustr ''integer division result too large for a float''))"
  by (simp add: render_template_def render_chart_simple_def get_or_def dict_get_def chart_stats_def
      is_number_def as_num_def mean_1f_def is_int_num_def int_of_num_def int_truediv_overflow)

lemma contains_at: "prefix p s \<Longrightarrow> contains (a @ p) (a @ s)"
  by (simp add: contains_iff_sublist prefix_imp_sublist)

lemma chart_nonempty:
  assumes dp: "get_or data (ustr ''data_points'') (JList []) = JList xs"
    and ne: "xs \<noteq> []" and nums: "list_all is_number xs" and avg: "mean_1f py xs = Inr avg"
  shows \<open>\<exists>out. render_chart_simple py data = Inr out
     \<and> contains (ustr ''\<newline>                        <div class="label">Min</div>''
                  @ ustr ''\<newline>                        <div class="value">''
                  @ py_str py (py_min py xs) @ ustr '' ''
                  @ html_escape (safe_str py (get_or data (ustr ''unit'') (JStr []))) @ ustr ''</div>'') out
     \<and> contains (ustr ''\<newline>                        <div class="label">Max</div>''
                  @ ustr ''\<newline>                        <div class="value">''
                  @ py_str py (py_max py xs) @ ustr '' ''
                  @ html_escape (safe_str py (get_or data (ustr ''unit'') (JStr []))) @ ustr ''</div>'') out
     \<and> contains (ustr ''\<newline>                        <div class="label">Avg</div>''
                  @ ustr ''\<newline>                        <div class="value">''
                  @ avg @ ustr '' ''
                  @ html_escape (safe_str py (get_or data (ustr ''unit'') (JStr []))) @ ustr ''</div>'') out\<close>
proof -
  have st: "chart_stats py xs = Inr (py_min py xs, py_max py xs, avg)"
    by (simp add: chart_stats_def nums avg)
  show ?thesis
    unfolding render_chart_simple_def Let_def dp json.case if_P [OF ne] st sum.case prod.case append_assoc
    apply (intro exI conjI)
       apply (rule refl)
      apply (intro contains_at contains_appendI2, simp)
     apply (intro contains_at contains_appendI2, simp)
    apply (intro contains_at contains_appendI2, simp)
    done
qed


lemma json_lt_ints [simp]: "json_lt py (JInt a) (JInt b) \<longleftrightarrow> a < b"
  by (simp add: json_lt_def as_num_def num_lt_def)

lemma foldl_min_ints:
  "foldl (\<lambda>cur item. if json_lt py item cur then item else cur) (JInt a) (map JInt bs)
   = JInt (fold min bs a)"
proof (induction bs arbitrary: a)
  case Nil
  then show ?case by simp
next
  case (Cons b bs)
  have "(if b < a then b else a) = min b a" by (simp add: min_def)
  with Cons show ?case by simp
qed

lemma foldl_max_ints:
  "foldl (\<lambda>cur item. if json_lt py cur item then item else cur) (JInt a) (map JInt bs)
   = JInt (fold max bs a)"
proof (induction bs arbitrary: a)
  case Nil
  then show ?case by simp
next
  case (Cons b bs)
  have "(if a < b then b else a) = max b a" by (simp add: max_def)
  with Cons show ?case by simp
qed

lemma py_min_ints:
  assumes "ns \<noteq> []"
  shows "py_min py (map JInt ns) = JInt (Min (set ns))"
proof (cases "ns")
  case Nil
  with assms show ?thesis by simp
next
  case (Cons a bs)
  then show ?thesis
    using Min.set_eq_fold [of a bs] by (simp add: py_min_def foldl_min_ints)
qed

lemma py_max_ints:
  assumes "ns \<noteq> []"
  shows "py_max py (map JInt ns) = JInt (Max (set ns))"
proof (cases "ns")
  case Nil
  with assms show ?thesis by simp
next
  case (Cons a bs)
  then show ?thesis
    using Max.set_eq_fold [of a bs] by (simp add: py_max_def foldl_max_ints)
qed

lemma mean_1f_ints:
  "mean_1f py (map JInt ns) =
     (case int_truediv (sum_list ns) (length ns) of Inl e \<Rightarrow> Inl e | Inr x \<Rightarrow> Inr (format_1f x))"
proof -
  have 1: "map (\<lambda>v. the (as_num v)) (map JInt ns) = map NInt ns"
    by (simp add: as_num_def comp_def)
  have 2: "list_all is_int_num (map NInt ns)"
    by (simp add: list_all_iff is_int_num_def)
  have 3: "map int_of_num (map NInt ns) = ns"
    by (simp add: int_of_num_def comp_def)
  show ?thesis
    unfolding mean_1f_def Let_def 1 3 if_P [OF 2] by simp
qed

lemma int_truediv_in_range:
  "nat \<bar>a\<bar> < (2 ^ 1024 - 2 ^ 970) * b \<Longrightarrow> \<exists>x. int_truediv a b = Inr x \<and> negative x = (a < 0)"
  by (auto simp: int_truediv_def Let_def split: prod.splits)

lemma format_1f_shape:
  "\<exists>ds d. format_1f x = (if negative x then ustr ''-'' else []) @ ds @ ustr ''.'' @ [d]
     \<and> ds \<noteq> [] \<and> list_all is_ascii_digit ds \<and> is_ascii_digit d"
proof -
  define t where "t = (if 0 \<le> exponent x then significand x * 2 ^ nat (exponent x) * 10
               else round_half_even (significand x * 10) (2 ^ nat (- exponent x)))"
  have "t mod 10 < 10" by simp
  then have d: "is_ascii_digit (48 + t mod 10)" unfolding is_ascii_digit_def by linarith
  have "format_1f x = (if negative x then ustr ''-'' else []) @ nat_digits (t div 10) @ ustr ''.'' @ [48 + t mod 10]"
    by (simp add: format_1f_def t_def Let_def)
  with d nat_digits_nonempty nat_digits_all_digits show ?thesis by blast
qed


lemma chart_empty:
  assumes dp: "get_or data (ustr ''data_points'') (JList []) = JList []"
  shows \<open>render_chart_simple py data =
           Inr (ustr ''\<newline>        <div class="widget-content">''
                @ ustr ''\<newline>            <div class="title mb-md">''
                @ html_escape (safe_str py (get_or data (ustr ''title'') (JStr (ustr ''Chart''))))
                @ ustr ''</div>''
                @ ustr ''\<newline>            ''
                @ ustr ''<div class="description">No data available</div>''
                @ ustr ''\<newline>        </div>''
                @ ustr ''\<newline>        '')\<close>
  by (simp add: render_chart_simple_def dp)

lemma render_template_chart:
  "render_template py clk (ustr ''chart_simple'') data = render_chart_simple py data"
  by (simp add: render_template_def)

text \<open>
  C8, as the code has it. With an empty list of data points the chart is the frame around
  the text "No data available" and nothing else. With a list of numbers that is not empty
  and whose mean does not raise, it shows the minimum, the maximum and the mean, each after
  its label and before the unit. For integers the minimum and the maximum are those of the
  list, and the mean, when the quotient is below \<open>2 ^ 1024 - 2 ^ 970\<close>, is the double nearest to
  sum / length, written with one digit after the point.
\<close>

theorem chart_simple_statistics:
  assumes "get_or data (ustr ''data_points'') (JList []) = JList xs"
  shows \<open>(xs = [] \<longrightarrow>
            render_template py clk (ustr ''chart_simple'') data =
              Inr (ustr ''\<newline>        <div class="widget-content">''
                   @ ustr ''\<newline>            <div class="title mb-md">''
                   @ html_escape (safe_str py (get_or data (ustr ''title'') (JStr (ustr ''Chart''))))
                   @ ustr ''</div>''
                   @ ustr ''\<newline>            ''
                   @ ustr ''<div class="description">No data available</div>''
                   @ ustr ''\<newline>        </div>''
                   @ ustr ''\<newline>        ''))
       \<and> (xs \<noteq> [] \<and> list_all is_number xs \<and> mean_1f py xs = Inr avg \<longrightarrow>
            (\<exists>out. render_template py clk (ustr ''chart_simple'') data = Inr out
               \<and> contains (ustr ''\<newline>                        <div class="label">Min</div>''
                            @ ustr ''\<newline>                        <div class="value">''
                            @ py_str py (py_min py xs) @ ustr '' ''
                            @ html_escape (safe_str py (get_or data (ustr ''unit'') (JStr [])))
                            @ ustr ''</div>'') out
               \<and> contains (ustr ''\<newline>                        <div class="label">Max</div>''
                            @ ustr ''\<newline>                        <div class="value">''
                            @ py_str py (py_max py xs) @ ustr '' ''
                            @ html_escape (safe_str py (get_or data (ustr ''unit'') (JStr [])))
                            @ ustr ''</div>'') out
               \<and> contains (ustr ''\<newline>                        <div class="label">Avg</div>''
                            @ ustr ''\<newline>                        <div class="value">''
                            @ avg @ ustr '' ''
                            @ html_escape (safe_str py (get_or data (ustr ''unit'') (JStr [])))
                            @ ustr ''</div>'') out))
       \<and> (xs = map JInt ns \<and> ns \<noteq> [] \<and> nat \<bar>sum_list ns\<bar> < (2 ^ 1024 - 2 ^ 970) * length ns \<longrightarrow>
            py_min py xs = JInt (Min (set ns)) \<and> py_max py xs = JInt (Max (set ns))
            \<and> (\<exists>x ds d. int_truediv (sum_list ns) (length ns) = Inr x
                  \<and> mean_1f py xs = Inr (format_1f x)
                  \<and> format_1f x = (if sum_list ns < 0 then ustr ''-'' else []) @ ds @ ustr ''.'' @ [d]
                  \<and> ds \<noteq> [] \<and> list_all is_ascii_digit ds \<and> is_ascii_digit d))\<close>
proof (intro conjI impI)
  assume "xs = []"
  with assms show \<open>render_template py clk (ustr ''chart_simple'') data =
              Inr (ustr ''\<newline>        <div class="widget-content">''
                   @ ustr ''\<newline>            <div class="title mb-md">''
                   @ html_escape (safe_str py (get_or data (ustr ''title'') (JStr (ustr ''Chart''))))
                   @ ustr ''</div>''
                   @ ustr ''\<newline>            ''
                   @ ustr ''<div class="description">No data available</div>''
                   @ ustr ''\<newline>        </div>''
                   @ ustr ''\<newline>        '')\<close>
    unfolding render_template_chart by (intro chart_empty) simp
next
  assume "xs \<noteq> [] \<and> list_all is_number xs \<and> mean_1f py xs = Inr avg"
  then show \<open>\<exists>out. render_template py clk (ustr ''chart_simple'') data = Inr out
               \<and> contains (ustr ''\<newline>                        <div class="label">Min</div>''
                            @ ustr ''\<newline>                        <div class="value">''
                            @ py_str py (py_min py xs) @ ustr '' ''
                            @ html_escape (safe_str py (get_or data (ustr ''unit'') (JStr [])))
                            @ ustr ''</div>'') out
               \<and> contains (ustr ''\<newline>                        <div class="label">Max</div>''
                            @ ustr ''\<newline>                        <div class="value">''
                            @ py_str py (py_max py xs) @ ustr '' ''
                            @ html_escape (safe_str py (get_or data (ustr ''unit'') (JStr [])))
                            @ ustr ''</div>'') out
               \<and> contains (ustr ''\<newline>                        <div class="label">Avg</div>''
                            @ ustr ''\<newline>                        <div class="value">''
                            @ avg @ ustr '' ''
                            @ html_escape (safe_str py (get_or data (ustr ''unit'') (JStr [])))
                            @ ustr ''</div>'') out\<close>
    unfolding render_template_chart using chart_nonempty [OF assms] by blast
next
  assume a: "xs = map JInt ns \<and> ns \<noteq> [] \<and> nat \<bar>sum_list ns\<bar> < (2 ^ 1024 - 2 ^ 970) * length ns"
  then show "py_min py xs = JInt (Min (set ns))" by (simp add: py_min_ints)
  from a show "py_max py xs = JInt (Max (set ns))" by (simp add: py_max_ints)
  from a int_truediv_in_range [of "sum_list ns" "length ns"]
  obtain x where x: "int_truediv (sum_list ns) (length ns) = Inr x" "negative x = (sum_list ns < 0)"
    by blast
  from format_1f_shape [of x] x(2)
  obtain ds d where "format_1f x = (if sum_list ns < 0 then ustr ''-'' else []) @ ds @ ustr ''.'' @ [d]"
    "ds \<noteq> []" "list_all is_ascii_digit ds" "is_ascii_digit d"
    by auto
  moreover from a x(1) have "mean_1f py xs = Inr (format_1f x)"
    by (simp add: mean_1f_ints)
  ultimately show "\<exists>x ds d. int_truediv (sum_list ns) (length ns) = Inr x
                  \<and> mean_1f py xs = Inr (format_1f x)
                  \<and> format_1f x = (if sum_list ns < 0 then ustr ''-'' else []) @ ds @ ustr ''.'' @ [d]
                  \<and> ds \<noteq> [] \<and> list_all is_ascii_digit ds \<and> is_ascii_digit d"
    using x(1) by blast
qed

theorem chart_simple_statistics_witness:
  \<open>(case render_template sample_builtins \<lparr>now_time = [], now_date = []\<rparr> (ustr ''chart_simple'')
           [(ustr ''title'', JStr (ustr ''C'')), (ustr ''data_points'', JList []),
            (ustr ''unit'', JStr (ustr ''%''))] of
       Inr out \<Rightarrow> contains (ustr ''No data available'') out \<and> \<not> contains (ustr ''Min'') out
                  \<and> \<not> contains (ustr ''Max'') out \<and> \<not> contains (ustr ''Avg'') out
     | Inl e \<Rightarrow> False)
   \<and> (case render_template sample_builtins \<lparr>now_time = [], now_date = []\<rparr> (ustr ''chart_simple'')
           [(ustr ''data_points'', JList [JInt 1, JInt 2, JInt 4]), (ustr ''unit'', JStr (ustr ''%''))] of
       Inr out \<Rightarrow>
         contains (ustr ''\<newline>                        <div class="label">Avg</div>''
                   @ ustr ''\<newline>                        <div class="value">''
                   @ ustr ''2.3'' @ ustr '' '' @ ustr ''%'' @ ustr ''</div>'') out
     | Inl e \<Rightarrow> False)
   \<and> py_min sample_builtins [JInt 1, JInt 2, JInt 4] = JInt 1
   \<and> py_max sample_builtins [JInt 1, JInt 2, JInt 4] = JInt 4\<close>
proof -
  let ?clk = "\<lparr>now_time = [], now_date = []\<rparr>"
  let ?a = "[(ustr ''title'', JStr (ustr ''C'')), (ustr ''data_points'', JList []),
            (ustr ''unit'', JStr (ustr ''%''))] :: (pystr \<times> unit json) list"
  let ?b = "[(ustr ''data_points'', JList [JInt 1, JInt 2, JInt 4]), (ustr ''unit'', JStr (ustr ''%''))]
            :: (pystr \<times> unit json) list"
  have ga: "get_or ?a (ustr ''data_points'') (JList []) = JList []"
    by (simp add: get_or_def dict_get_def)
  have gb: "get_or ?b (ustr ''data_points'') (JList []) = JList [JInt 1, JInt 2, JInt 4]"
    by (simp add: get_or_def dict_get_def)
  have ta: "html_escape (safe_str sample_builtins (get_or ?a (ustr ''title'') (JStr (ustr ''Chart''))))
            = ustr ''C''"
    by (simp add: get_or_def dict_get_def safe_str_def py_str_def html_escape_def escape_char_def
        ustr_def uc_def)
  have ub: "html_escape (safe_str sample_builtins (get_or ?b (ustr ''unit'') (JStr []))) = ustr ''%''"
    by (simp add: get_or_def dict_get_def safe_str_def py_str_def html_escape_def escape_char_def
        ustr_def uc_def)
  from chart_simple_statistics [OF ga, where py = sample_builtins and clk = ?clk]
  have outa: \<open>render_template sample_builtins ?clk (ustr ''chart_simple'') ?a =
              Inr (ustr ''\<newline>        <div class="widget-content">''
                   @ ustr ''\<newline>            <div class="title mb-md">''
                   @ ustr ''C''
                   @ ustr ''</div>''
                   @ ustr ''\<newline>            ''
                   @ ustr ''<div class="description">No data available</div>''
                   @ ustr ''\<newline>        </div>''
                   @ ustr ''\<newline>        '')\<close>
    unfolding ta by blast
  have A: \<open>contains (ustr ''No data available'')
             (ustr ''\<newline>        <div class="widget-content">''
                   @ ustr ''\<newline>            <div class="title mb-md">''
                   @ ustr ''C''
                   @ ustr ''</div>''
                   @ ustr ''\<newline>            ''
                   @ ustr ''<div class="description">No data available</div>''
                   @ ustr ''\<newline>        </div>''
                   @ ustr ''\<newline>        '')\<close>
    by (simp add: ustr_def)
  have B: \<open>\<not> contains (ustr ''Min'')
             (ustr ''\<newline>        <div class="widget-content">''
                   @ ustr ''\<newline>            <div class="title mb-md">''
                   @ ustr ''C''
                   @ ustr ''</div>''
                   @ ustr ''\<newline>            ''
                   @ ustr ''<div class="description">No data available</div>''
                   @ ustr ''\<newline>        </div>''
                   @ ustr ''\<newline>        '')\<close>
    by (simp add: ustr_def)
  have C: \<open>\<not> contains (ustr ''Max'')
             (ustr ''\<newline>        <div class="widget-content">''
                   @ ustr ''\<newline>            <div class="title mb-md">''
                   @ ustr ''C''
                   @ ustr ''</div>''
                   @ ustr ''\<newline>            ''
                   @ ustr ''<div class="description">No data available</div>''
                   @ ustr ''\<newline>        </div>''
                   @ ustr ''\<newline>        '')\<close>
    by (simp add: ustr_def)
  have D: \<open>\<not> contains (ustr ''Avg'')
             (ustr ''\<newline>        <div class="widget-content">''
                   @ ustr ''\<newline>            <div class="title mb-md">''
                   @ ustr ''C''
                   @ ustr ''</div>''
                   @ ustr ''\<newline>            ''
                   @ ustr ''<div class="description">No data available</div>''
                   @ ustr ''\<newline>        </div>''
                   @ ustr ''\<newline>        '')\<close>
    by (simp add: ustr_def)
  have nums: "[JInt 1, JInt 2, JInt 4] \<noteq> [] \<and> list_all is_number [JInt 1, JInt 2, JInt 4 :: unit json]
              \<and> mean_1f sample_builtins [JInt 1, JInt 2, JInt 4] = Inr (ustr ''2.3'')"
    by (simp add: is_number_def as_num_def mean_1f_def is_int_num_def int_of_num_def int_truediv_def
        nearest_double_def floor_log2_def bit_length.simps round_half_even_def Let_def format_1f_def
        nat_digits.simps ustr_def)
  from chart_simple_statistics [OF gb, where py = sample_builtins and avg = "ustr ''2.3''" and clk = ?clk] nums
  obtain out where out: "render_template sample_builtins ?clk (ustr ''chart_simple'') ?b = Inr out"
    and avg: \<open>contains (ustr ''\<newline>                        <div class="label">Avg</div>''
                   @ ustr ''\<newline>                        <div class="value">''
                   @ ustr ''2.3'' @ ustr '' ''
                   @ html_escape (safe_str sample_builtins (get_or ?b (ustr ''unit'') (JStr [])))
                   @ ustr ''</div>'') out\<close>
    by blast
  have ints: "[JInt 1, JInt 2, JInt 4 :: unit json] = map JInt [1, 2, 4] \<and> [1, 2, 4 :: int] \<noteq> []
              \<and> nat \<bar>sum_list [1, 2, 4 :: int]\<bar> < (2 ^ 1024 - 2 ^ 970) * length [1, 2, 4 :: int]"
    by simp
  from chart_simple_statistics [OF gb, where py = sample_builtins and ns = "[1, 2, 4]",
      THEN conjunct2, THEN conjunct2, THEN mp, OF ints]
  have mm: "py_min sample_builtins [JInt 1, JInt 2, JInt 4] = JInt (Min (set [1, 2, 4]))
            \<and> py_max sample_builtins [JInt 1, JInt 2, JInt 4] = JInt (Max (set [1, 2, 4]))"
    by simp
  from outa A B C D out avg mm show ?thesis
    by (simp add: ub)
qed

subsection \<open>Fragments\<close>

text \<open>Each piece of template text is a fragment.\<close>

lemma markup_all: "list_all (\<lambda>m. m \<in> fragments) template_markup"
  by (simp add: list_all_iff fragments.markup)

lemmas markup_from_0 = markup_all [unfolded template_markup_def list.pred_inject]

lemmas markup_from_1 = markup_from_0 [THEN conjunct2]
lemmas markup_from_2 = markup_from_1 [THEN conjunct2]
lemmas markup_from_3 = markup_from_2 [THEN conjunct2]
lemmas markup_from_4 = markup_from_3 [THEN conjunct2]
lemmas markup_from_5 = markup_from_4 [THEN conjunct2]
lemmas markup_from_6 = markup_from_5 [THEN conjunct2]
lemmas markup_from_7 = markup_from_6 [THEN conjunct2]
lemmas markup_from_8 = markup_from_7 [THEN conjunct2]
lemmas markup_from_9 = markup_from_8 [THEN conjunct2]
lemmas markup_from_10 = markup_from_9 [THEN conjunct2]
lemmas markup_from_11 = markup_from_10 [THEN conjunct2]
lemmas markup_from_12 = markup_from_11 [THEN conjunct2]
lemmas markup_from_13 = markup_from_12 [THEN conjunct2]
lemmas markup_from_14 = markup_from_13 [THEN conjunct2]
lemmas markup_from_15 = markup_from_14 [THEN conjunct2]
lemmas markup_from_16 = markup_from_15 [THEN conjunct2]
lemmas markup_from_17 = markup_from_16 [THEN conjunct2]
lemmas markup_from_18 = markup_from_17 [THEN conjunct2]
lemmas markup_from_19 = markup_from_18 [THEN conjunct2]
lemmas markup_from_20 = markup_from_19 [THEN conjunct2]
lemmas markup_from_21 = markup_from_20 [THEN conjunct2]
lemmas markup_from_22 = markup_from_21 [THEN conjunct2]
lemmas markup_from_23 = markup_from_22 [THEN conjunct2]
lemmas markup_from_24 = markup_from_23 [THEN conjunct2]
lemmas markup_from_25 = markup_from_24 [THEN conjunct2]
lemmas markup_from_26 = markup_from_25 [THEN conjunct2]
lemmas markup_from_27 = markup_from_26 [THEN conjunct2]
lemmas markup_from_28 = markup_from_27 [THEN conjunct2]
lemmas markup_from_29 = markup_from_28 [THEN conjunct2]
lemmas markup_from_30 = markup_from_29 [THEN conjunct2]
lemmas markup_from_31 = markup_from_30 [THEN conjunct2]
lemmas markup_from_32 = markup_from_31 [THEN conjunct2]
lemmas markup_from_33 = markup_from_32 [THEN conjunct2]
lemmas markup_from_34 = markup_from_33 [THEN conjunct2]
lemmas markup_from_35 = markup_from_34 [THEN conjunct2]
lemmas markup_from_36 = markup_from_35 [THEN conjunct2]
lemmas markup_from_37 = markup_from_36 [THEN conjunct2]
lemmas markup_from_38 = markup_from_37 [THEN conjunct2]
lemmas markup_from_39 = markup_from_38 [THEN conjunct2]
lemmas markup_from_40 = markup_from_39 [THEN conjunct2]
lemmas markup_from_41 = markup_from_40 [THEN conjunct2]
lemmas markup_from_42 = markup_from_41 [THEN conjunct2]
lemmas markup_from_43 = markup_from_42 [THEN conjunct2]
lemmas markup_from_44 = markup_from_43 [THEN conjunct2]
lemmas markup_from_45 = markup_from_44 [THEN conjunct2]
lemmas markup_from_46 = markup_from_45 [THEN conjunct2]
lemmas markup_from_47 = markup_from_46 [THEN conjunct2]
lemmas markup_from_48 = markup_from_47 [THEN conjunct2]
lemmas markup_from_49 = markup_from_48 [THEN conjunct2]
lemmas markup_from_50 = markup_from_49 [THEN conjunct2]
lemmas markup_from_51 = markup_from_50 [THEN conjunct2]
lemmas markup_from_52 = markup_from_51 [THEN conjunct2]
lemmas markup_from_53 = markup_from_52 [THEN conjunct2]
lemmas markup_from_54 = markup_from_53 [THEN conjunct2]
lemmas markup_from_55 = markup_from_54 [THEN conjunct2]
lemmas markup_from_56 = markup_from_55 [THEN conjunct2]
lemmas markup_from_57 = markup_from_56 [THEN conjunct2]
lemmas markup_from_58 = markup_from_57 [THEN conjunct2]
lemmas markup_from_59 = markup_from_58 [THEN conjunct2]
lemmas markup_from_60 = markup_from_59 [THEN conjunct2]
lemmas markup_from_61 = markup_from_60 [THEN conjunct2]
lemmas markup_from_62 = markup_from_61 [THEN conjunct2]
lemmas markup_from_63 = markup_from_62 [THEN conjunct2]
lemmas markup_from_64 = markup_from_63 [THEN conjunct2]
lemmas markup_from_65 = markup_from_64 [THEN conjunct2]
lemmas markup_from_66 = markup_from_65 [THEN conjunct2]
lemmas markup_from_67 = markup_from_66 [THEN conjunct2]
lemmas markup_from_68 = markup_from_67 [THEN conjunct2]
lemmas markup_from_69 = markup_from_68 [THEN conjunct2]
lemmas markup_from_70 = markup_from_69 [THEN conjunct2]
lemmas markup_from_71 = markup_from_70 [THEN conjunct2]
lemmas markup_from_72 = markup_from_71 [THEN conjunct2]
lemmas markup_from_73 = markup_from_72 [THEN conjunct2]
lemmas markup_from_74 = markup_from_73 [THEN conjunct2]
lemmas markup_from_75 = markup_from_74 [THEN conjunct2]
lemmas markup_from_76 = markup_from_75 [THEN conjunct2]
lemmas markup_from_77 = markup_from_76 [THEN conjunct2]
lemmas markup_from_78 = markup_from_77 [THEN conjunct2]
lemmas markup_from_79 = markup_from_78 [THEN conjunct2]
lemmas markup_from_80 = markup_from_79 [THEN conjunct2]
lemmas markup_from_81 = markup_from_80 [THEN conjunct2]
lemmas markup_from_82 = markup_from_81 [THEN conjunct2]
lemmas markup_from_83 = markup_from_82 [THEN conjunct2]
lemmas markup_from_84 = markup_from_83 [THEN conjunct2]
lemmas markup_from_85 = markup_from_84 [THEN conjunct2]
lemmas markup_from_86 = markup_from_85 [THEN conjunct2]
lemmas markup_from_87 = markup_from_86 [THEN conjunct2]
lemmas markup_from_88 = markup_from_87 [THEN conjunct2]
lemmas markup_from_89 = markup_from_88 [THEN conjunct2]
lemmas markup_from_90 = markup_from_89 [THEN conjunct2]
lemmas markup_from_91 = markup_from_90 [THEN conjunct2]
lemmas markup_from_92 = markup_from_91 [THEN conjunct2]

lemmas markup_pieces =
  markup_from_0 [THEN conjunct1]
  markup_from_1 [THEN conjunct1]
  markup_from_2 [THEN conjunct1]
  markup_from_3 [THEN conjunct1]
  markup_from_4 [THEN conjunct1]
  markup_from_5 [THEN conjunct1]
  markup_from_6 [THEN conjunct1]
  markup_from_7 [THEN conjunct1]
  markup_from_8 [THEN conjunct1]
  markup_from_9 [THEN conjunct1]
  markup_from_10 [THEN conjunct1]
  markup_from_11 [THEN conjunct1]
  markup_from_12 [THEN conjunct1]
  markup_from_13 [THEN conjunct1]
  markup_from_14 [THEN conjunct1]
  markup_from_15 [THEN conjunct1]
  markup_from_16 [THEN conjunct1]
  markup_from_17 [THEN conjunct1]
  markup_from_18 [THEN conjunct1]
  markup_from_19 [THEN conjunct1]
  markup_from_20 [THEN conjunct1]
  markup_from_21 [THEN conjunct1]
  markup_from_22 [THEN conjunct1]
  markup_from_23 [THEN conjunct1]
  markup_from_24 [THEN conjunct1]
  markup_from_25 [THEN conjunct1]
  markup_from_26 [THEN conjunct1]
  markup_from_27 [THEN conjunct1]
  markup_from_28 [THEN conjunct1]
  markup_from_29 [THEN conjunct1]
  markup_from_30 [THEN conjunct1]
  markup_from_31 [THEN conjunct1]
  markup_from_32 [THEN conjunct1]
  markup_from_33 [THEN conjunct1]
  markup_from_34 [THEN conjunct1]
  markup_from_35 [THEN conjunct1]
  markup_from_36 [THEN conjunct1]
  markup_from_37 [THEN conjunct1]
  markup_from_38 [THEN conjunct1]
  markup_from_39 [THEN conjunct1]
  markup_from_40 [THEN conjunct1]
  markup_from_41 [THEN conjunct1]
  markup_from_42 [THEN conjunct1]
  markup_from_43 [THEN conjunct1]
  markup_from_44 [THEN conjunct1]
  markup_from_45 [THEN conjunct1]
  markup_from_46 [THEN conjunct1]
  markup_from_47 [THEN conjunct1]
  markup_from_48 [THEN conjunct1]
  markup_from_49 [THEN conjunct1]
  markup_from_50 [THEN conjunct1]
  markup_from_51 [THEN conjunct1]
  markup_from_52 [THEN conjunct1]
  markup_from_53 [THEN conjunct1]
  markup_from_54 [THEN conjunct1]
  markup_from_55 [THEN conjunct1]
  markup_from_56 [THEN conjunct1]
  markup_from_57 [THEN conjunct1]
  markup_from_58 [THEN conjunct1]
  markup_from_59 [THEN conjunct1]
  markup_from_60 [THEN conjunct1]
  markup_from_61 [THEN conjunct1]
  markup_from_62 [THEN conjunct1]
  markup_from_63 [THEN conjunct1]
  markup_from_64 [THEN conjunct1]
  markup_from_65 [THEN conjunct1]
  markup_from_66 [THEN conjunct1]
  markup_from_67 [THEN conjunct1]
  markup_from_68 [THEN conjunct1]
  markup_from_69 [THEN conjunct1]
  markup_from_70 [THEN conjunct1]
  markup_from_71 [THEN conjunct1]
  markup_from_72 [THEN conjunct1]
  markup_from_73 [THEN conjunct1]
  markup_from_74 [THEN conjunct1]
  markup_from_75 [THEN conjunct1]
  markup_from_76 [THEN conjunct1]
  markup_from_77 [THEN conjunct1]
  markup_from_78 [THEN conjunct1]
  markup_from_79 [THEN conjunct1]
  markup_from_80 [THEN conjunct1]
  markup_from_81 [THEN conjunct1]
  markup_from_82 [THEN conjunct1]
  markup_from_83 [THEN conjunct1]
  markup_from_84 [THEN conjunct1]
  markup_from_85 [THEN conjunct1]
  markup_from_86 [THEN conjunct1]
  markup_from_87 [THEN conjunct1]
  markup_from_88 [THEN conjunct1]
  markup_from_89 [THEN conjunct1]
  markup_from_90 [THEN conjunct1]
  markup_from_91 [THEN conjunct1]
  markup_from_92 [THEN conjunct1]

lemma frag_if:
  "(c \<Longrightarrow> a \<in> fragments) \<Longrightarrow> (\<not> c \<Longrightarrow> b \<in> fragments) \<Longrightarrow> (if c then a else b) \<in> fragments"
  by simp

lemma frag_concat: "(\<And>x. x \<in> set xs \<Longrightarrow> x \<in> fragments) \<Longrightarrow> concat xs \<in> fragments"
  by (induction xs) (auto intro: fragments.intros)

lemma collect_set: "h \<in> set (collect rs) \<longleftrightarrow> Inr h \<in> set rs"
proof (induction rs)
  case Nil
  then show ?case by simp
next
  case (Cons r rs)
  then show ?case by (cases r) auto
qed

lemma frag_items:
  assumes "\<And>x h. f x = Inr h \<Longrightarrow> h \<in> fragments"
  shows "concat (collect (map f xs)) \<in> fragments"
proof (rule frag_concat)
  fix h assume "h \<in> set (collect (map f xs))"
  then have "Inr h \<in> set (map f xs)" by (simp add: collect_set)
  then obtain x where "f x = Inr h" by auto
  then show "h \<in> fragments" by (rule assms)
qed

lemmas frag_intros = fragments.empty fragments.escaped fragments.append frag_if markup_pieces

lemma render_error_fragment: "render_error m \<in> fragments"
  unfolding render_error_def by (intro frag_intros)

lemma render_key_value_fragment: "render_key_value py data \<in> fragments"
  unfolding render_key_value_def Let_def by (intro frag_intros)

lemma render_title_subtitle_value_fragment: "render_title_subtitle_value py data \<in> fragments"
  unfolding render_title_subtitle_value_def Let_def by (intro frag_intros)

lemma metric_item_fragment:
  "metric_item py tp vp up metric = Inr h \<Longrightarrow> h \<in> fragments"
  unfolding metric_item_def Let_def
  by (auto split: sum.splits intro!: frag_intros)

lemma render_metric_grid_fragment: "render_metric_grid py data \<in> fragments"
  unfolding render_metric_grid_def Let_def
  by (auto split: json.splits intro!: frag_intros frag_items render_error_fragment
      intro: metric_item_fragment)


lemma frag_concat_opt: "x \<in> fragments \<Longrightarrow> concat (if c then [x] else []) \<in> fragments"
  by (simp add: fragments.empty)

lemma frag_concat_app:
  "concat a \<in> fragments \<Longrightarrow> concat b \<in> fragments \<Longrightarrow> concat (a @ b) \<in> fragments"
  by (simp add: fragments.append)

lemma frag_concat_if:
  "(c \<Longrightarrow> concat a \<in> fragments) \<Longrightarrow> (\<not> c \<Longrightarrow> concat b \<in> fragments)
   \<Longrightarrow> concat (if c then a else b) \<in> fragments"
  by simp

lemma frag_concat_single: "x \<in> fragments \<Longrightarrow> concat [x] \<in> fragments"
  by simp

lemma render_weather_current_fragment: "render_weather_current py data \<in> fragments"
  unfolding render_weather_current_def Let_def
  by (intro frag_intros frag_concat_app frag_concat_opt)

lemma render_time_display_fragment: "render_time_display py clk data \<in> fragments"
  unfolding render_time_display_def Let_def by (intro frag_intros)

lemma get_status_icon_fragment: "get_status_icon py status \<in> fragments"
  unfolding get_status_icon_def Let_def by (intro frag_intros)

lemma get_status_class_fragment: "get_status_class py status \<in> fragments"
  unfolding get_status_class_def Let_def by (intro frag_intros)

lemma status_item_fragment:
  "status_item py np sp mp item = Inr h \<Longrightarrow> h \<in> fragments"
  unfolding status_item_def Let_def
  by (auto split: sum.splits intro!: frag_intros get_status_icon_fragment get_status_class_fragment)

lemma render_status_list_fragment: "render_status_list py data \<in> fragments"
  unfolding render_status_list_def Let_def
  by (auto split: json.splits intro!: frag_intros frag_items render_error_fragment
      intro: status_item_fragment)

lemma icon_item_fragment:
  "icon_item py ip tp dp item = Inr h \<Longrightarrow> h \<in> fragments"
  unfolding icon_item_def Let_def
  by (auto split: sum.splits intro!: frag_intros)

lemma render_icon_list_fragment: "render_icon_list py data \<in> fragments"
  unfolding render_icon_list_def Let_def
  by (auto split: json.splits intro!: frag_intros frag_items render_error_fragment
      intro: icon_item_fragment)

lemma render_text_block_fragment: "render_text_block py data \<in> fragments"
  unfolding render_text_block_def Let_def by (intro frag_intros)

lemma render_image_caption_fragment: "render_image_caption py data \<in> fragments"
  unfolding render_image_caption_def Let_def by (intro frag_intros render_error_fragment)

lemma rss_headline_item_fragment:
  "rss_headline_item py item = Inr h \<Longrightarrow> h \<in> fragments"
  unfolding rss_headline_item_def Let_def
  by (auto split: json.splits if_splits simp del: append.simps intro!: frag_intros)

lemma render_rss_headlines_fragment: "render_rss_headlines py data \<in> fragments"
  unfolding render_rss_headlines_def Let_def
  by (auto split: json.splits simp del: append.simps
      intro!: frag_intros frag_concat_if frag_concat_single frag_items render_error_fragment
      intro: rss_headline_item_fragment)

lemma render_rss_summary_fragment: "render_rss_summary py data \<in> fragments"
  unfolding render_rss_summary_def Let_def
  by (auto split: json.splits list.splits prod.splits intro!: frag_intros)


lemma escape_char_plain: "\<not> html_special c \<Longrightarrow> escape_char c = [c]"
  by (simp add: escape_char_def html_special_def uc_def)

lemma html_escape_plain: "\<forall>c \<in> set s. \<not> html_special c \<Longrightarrow> html_escape s = s"
  by (induction s) (simp_all add: html_escape_def escape_char_plain)

lemma plain_fragment: "\<forall>c \<in> set s. \<not> html_special c \<Longrightarrow> s \<in> fragments"
  using fragments.escaped [of s] by (simp add: html_escape_plain)

lemma digit_not_special: "is_ascii_digit c \<Longrightarrow> \<not> html_special c"
  by (auto simp: is_ascii_digit_def html_special_def)

lemma nat_digits_plain: "\<forall>c \<in> set (nat_digits n). \<not> html_special c"
  using nat_digits_all_digits [of n] by (auto simp: list_all_iff digit_not_special)

lemma int_str_plain: "\<forall>c \<in> set (int_str i). \<not> html_special c"
  using nat_digits_plain by (auto simp: int_str_def html_special_def)

lemma format_1f_plain: "\<forall>c \<in> set (format_1f x). \<not> html_special c"
proof -
  from format_1f_shape [of x] obtain ds d where
    f: "format_1f x = (if negative x then ustr ''-'' else []) @ ds @ ustr ''.'' @ [d]"
    and ds: "list_all is_ascii_digit ds" and d: "is_ascii_digit d"
    by blast
  have "\<forall>c \<in> set (ustr ''-''). \<not> html_special c" "\<forall>c \<in> set (ustr ''.''). \<not> html_special c"
    by (simp_all add: ustr_def html_special_def)
  with ds d show ?thesis
    unfolding f by (auto simp: list_all_iff digit_not_special)
qed

lemma foldl_pick: "foldl (\<lambda>cur item. if P item cur then item else cur) a bs \<in> set (a # bs)"
proof (induction bs arbitrary: a)
  case Nil
  then show ?case by simp
next
  case (Cons b bs)
  from Cons [of "if P b a then b else a"] show ?case by (auto split: if_splits)
qed

lemma py_min_in_set: "xs \<noteq> [] \<Longrightarrow> py_min py xs \<in> set xs"
  using foldl_pick [of "json_lt py" "hd xs" "tl xs"] by (cases xs) (simp_all add: py_min_def)

lemma py_max_in_set: "xs \<noteq> [] \<Longrightarrow> py_max py xs \<in> set xs"
  using foldl_pick [of "\<lambda>item cur. json_lt py cur item" "hd xs" "tl xs"]
  by (cases xs) (simp_all add: py_max_def)

lemma number_text_fragment:
  assumes "\<forall>x. \<forall>c \<in> set (float_str py x). \<not> html_special c" and "is_number v"
  shows "py_str py v \<in> fragments"
proof (rule plain_fragment)
  have "\<forall>c \<in> set (ustr ''True''). \<not> html_special c" "\<forall>c \<in> set (ustr ''False''). \<not> html_special c"
    by (simp_all add: ustr_def html_special_def)
  with assms int_str_plain show "\<forall>c \<in> set (py_str py v). \<not> html_special c"
    by (cases v) (auto simp: py_str_def is_number_def as_num_def)
qed

lemma mean_1f_fragment:
  assumes "\<forall>x n. \<forall>c \<in> set (float_mean_1f py x n). \<not> html_special c"
    and "mean_1f py xs = Inr avg"
  shows "avg \<in> fragments"
proof (rule plain_fragment)
  from assms format_1f_plain show "\<forall>c \<in> set avg. \<not> html_special c"
    by (auto simp: mean_1f_def Let_def split: if_splits sum.splits)
qed

lemma render_chart_simple_fragment:
  assumes fl: "\<forall>x. \<forall>c \<in> set (float_str py x). \<not> html_special c"
    and fm: "\<forall>x n. \<forall>c \<in> set (float_mean_1f py x n). \<not> html_special c"
    and out: "render_chart_simple py data = Inr out"
  shows "out \<in> fragments"
proof (cases "get_or data (ustr ''data_points'') (JList [])")
  case (JList xs)
  show ?thesis
  proof (cases "xs = []")
    case True
    with JList out show ?thesis
      unfolding render_chart_simple_def Let_def
      by (auto simp del: append.simps intro!: frag_intros)
  next
    case False
    with JList out obtain mn mx avg where st: "chart_stats py xs = Inr (mn, mx, avg)"
      unfolding render_chart_simple_def Let_def
      by (auto split: sum.splits)
    then have nums: "list_all is_number xs" and avg: "mean_1f py xs = Inr avg"
      and mn: "mn = py_min py xs" and mx: "mx = py_max py xs"
      by (auto simp: chart_stats_def split: if_splits sum.splits)
    from nums False have "is_number mn" "is_number mx"
      using py_min_in_set [of xs py] py_max_in_set [of xs py] by (auto simp: list_all_iff mn mx)
    then have a: "py_str py mn \<in> fragments" "py_str py mx \<in> fragments"
      by (auto intro: number_text_fragment [OF fl])
    have b: "avg \<in> fragments" using fm avg by (rule mean_1f_fragment)
    from JList False st out a b show ?thesis
      unfolding render_chart_simple_def Let_def
      by (auto simp del: append.simps intro!: frag_intros)
  qed
qed (use out in \<open>auto simp: render_chart_simple_def Let_def intro: render_error_fragment\<close>)

lemma render_rss_feed_info_fragment:
  assumes "render_rss_feed_info py data = Inr out"
  shows "out \<in> fragments"
proof -
  have "int_str (int n) \<in> fragments" for n
    by (rule plain_fragment) (rule int_str_plain)
  with assms show ?thesis
    unfolding render_rss_feed_info_def Let_def
    by (auto split: sum.splits simp del: append.simps intro!: frag_intros)
qed

lemma escape_char_no_markup: "c \<in> set (escape_char x) \<Longrightarrow> c \<notin> {60, 62, 34, 39}"
  by (auto simp: escape_char_def ustr_def uc_def split: if_splits)

lemma html_escape_no_markup: "c \<in> set (html_escape s) \<Longrightarrow> c \<notin> {60, 62, 34, 39}"
  unfolding html_escape_def using escape_char_no_markup by auto

text \<open>A fragment opens no tag but those of the templates.\<close>

lemma template_tags_only_append:
  "template_tags_only a \<Longrightarrow> template_tags_only b \<Longrightarrow> template_tags_only (a @ b)"
proof (induction a rule: template_tags_only.induct)
  case 1
  then show ?case by simp
next
  case (2 c)
  then show ?case by (cases b) simp_all
next
  case (3 c d s)
  then show ?case by simp
qed

lemma no_angle_template_tags_only: "60 \<notin> set s \<Longrightarrow> template_tags_only s"
  by (induction s rule: template_tags_only.induct) simp_all

lemma markup_template_tags_only: "list_all template_tags_only template_markup"
  by (simp add: template_markup_def ustr_def)

lemma fragments_template_tags_only: "s \<in> fragments \<Longrightarrow> template_tags_only s"
proof (induction rule: fragments.induct)
  case empty
  then show ?case by simp
next
  case (markup m)
  with markup_template_tags_only show ?case by (simp add: list_all_iff)
next
  case (escaped s)
  have "60 \<notin> set (html_escape s)" using html_escape_no_markup [of 60 s] by auto
  then show ?case by (rule no_angle_template_tags_only)
next
  case (append a b)
  then show ?case by (simp add: template_tags_only_append)
qed

text \<open>
  C5. Every fragment that a template gives is made of template text and of HTML-escaped
  text only. The numbers that the chart and the feed information write without a call of
  \<open>html.escape\<close> are their own escaped text, as no digit, sign or point is a special character;
  for the floats of the data this is asked of the interpreter's \<open>str\<close> and \<open>format\<close>. So a
  fragment opens no tag but those of the templates, whatever the data.
\<close>

theorem render_template_escapes:
  assumes "\<forall>x. \<forall>c \<in> set (float_str py x). \<not> html_special c"
    and "\<forall>x n. \<forall>c \<in> set (float_mean_1f py x n). \<not> html_special c"
    and "render_template py clk tid data = Inr out"
  shows "out \<in> fragments \<and> template_tags_only out"
proof -
  have "out \<in> fragments"
    using assms(3) unfolding render_template_def
    by (auto split: if_splits
      intro: render_key_value_fragment render_title_subtitle_value_fragment render_metric_grid_fragment
        render_weather_current_fragment render_time_display_fragment render_status_list_fragment
        render_icon_list_fragment render_text_block_fragment render_image_caption_fragment
        render_rss_headlines_fragment render_rss_summary_fragment render_error_fragment
        render_chart_simple_fragment [OF assms(1) assms(2)] render_rss_feed_info_fragment)
  then show ?thesis by (simp add: fragments_template_tags_only)
qed

theorem render_template_escapes_witness:
  "render_key_value sample_builtins [(ustr ''title'', JStr (ustr ''<b>''))] \<in> fragments
   \<and> template_tags_only (render_key_value sample_builtins [(ustr ''title'', JStr (ustr ''<b>''))])"
proof -
  have 1: "\<forall>x. \<forall>c \<in> set (float_str sample_builtins x). \<not> html_special c"
    by (simp add: sample_builtins_def ustr_def html_special_def)
  have 2: "\<forall>x n. \<forall>c \<in> set (float_mean_1f sample_builtins x n). \<not> html_special c"
    by (simp add: sample_builtins_def ustr_def html_special_def)
  have 3: "render_template sample_builtins \<lparr>now_time = [], now_date = []\<rparr> (ustr ''key_value'')
             [(ustr ''title'', JStr (ustr ''<b>''))]
           = Inr (render_key_value sample_builtins [(ustr ''title'', JStr (ustr ''<b>''))])"
    by (simp add: render_template_def)
  from render_template_escapes [OF 1 2 3] show ?thesis .
qed

section \<open>Properties of the pipeline\<close>

lemma fetch_rss_direct_log:
  "snd (fetch_rss_direct net cfg)
   = [HttpGet (api_url cfg) [(ustr ''User-Agent'', ustr ''E-Paper-Dashboard/1.0 RSS Reader'')] (timeout cfg)]"
  by (simp add: fetch_rss_direct_def Let_def)

text \<open>
  C7. With a feed address, when the POST to the preview service raises a connection error,
  the feed is fetched directly: the log holds the POST and then one GET, to the feed address,
  and the result is that of the direct fetch. When the preview service answers a JSON object
  with the key \<open>feed\<close>, the value of the key is the result and the log holds the POST only.
\<close>

theorem fetch_rss_data_tiers:
  "api_url cfg \<noteq> [] \<longrightarrow>
     (\<forall>e. http_post net rss_api_url (rss_payload cfg)
            [(ustr ''Content-Type'', ustr ''application/json'')] (timeout cfg) = Inl e
          \<and> exn_class e = ConnectionError \<longrightarrow>
          fetch_rss_data py net cfg =
            (fst (fetch_rss_direct net cfg),
             [rss_post cfg,
              HttpGet (api_url cfg) [(ustr ''User-Agent'', ustr ''E-Paper-Dashboard/1.0 RSS Reader'')]
                (timeout cfg)]))
     \<and> (\<forall>resp d feed.
          http_post net rss_api_url (rss_payload cfg)
            [(ustr ''Content-Type'', ustr ''application/json'')] (timeout cfg) = Inr resp
          \<and> raise_for_status resp = None \<and> json_body resp = Inr (JDict d)
          \<and> dict_get d (ustr ''feed'') = Some feed \<longrightarrow>
          fetch_rss_data py net cfg = (Inr feed, [rss_post cfg]))"
proof (intro impI conjI allI)
  fix e
  assume u: "api_url cfg \<noteq> []"
    and p: "http_post net rss_api_url (rss_payload cfg)
            [(ustr ''Content-Type'', ustr ''application/json'')] (timeout cfg) = Inl e
          \<and> exn_class e = ConnectionError"
  then show "fetch_rss_data py net cfg =
            (fst (fetch_rss_direct net cfg),
             [rss_post cfg,
              HttpGet (api_url cfg) [(ustr ''User-Agent'', ustr ''E-Paper-Dashboard/1.0 RSS Reader'')]
                (timeout cfg)])"
    by (simp add: fetch_rss_data_def checked_json_def fetch_rss_direct_log)
next
  fix resp d feed
  assume u: "api_url cfg \<noteq> []"
    and p: "http_post net rss_api_url (rss_payload cfg)
            [(ustr ''Content-Type'', ustr ''application/json'')] (timeout cfg) = Inr resp
          \<and> raise_for_status resp = None \<and> json_body resp = Inr (JDict d)
          \<and> dict_get d (ustr ''feed'') = Some feed"
  then have "dict_has d (ustr ''feed'')" by (auto intro: dict_get_has)
  with u p show "fetch_rss_data py net cfg = (Inr feed, [rss_post cfg])"
    by (simp add: fetch_rss_data_def checked_json_def feed_of_answer_def py_in_def subscript_key_def)
qed

theorem fetch_rss_data_tiers_witness:
  "fetch_rss_data sample_builtins sample_network
     (sample_config (ustr ''rss'') (ustr ''http://f'') (ustr ''rss_headlines'') [])
   = (Inl (Exn PlainException (ustr ''RSS XML parsing failed: syntax error: line 1, column 0'')),
      [HttpPost (ustr ''http://localhost:8080/api/rss/preview'')
         (JDict [(ustr ''feed_url'', JStr (ustr ''http://f'')), (ustr ''rss_config'', JDict [])])
         [(ustr ''Content-Type'', ustr ''application/json'')] (JInt 30),
       HttpGet (ustr ''http://f'') [(ustr ''User-Agent'', ustr ''E-Paper-Dashboard/1.0 RSS Reader'')]
         (JInt 30)])
   \<and> fetch_rss_data sample_builtins preview_network
       (sample_config (ustr ''rss'') (ustr ''http://f'') (ustr ''rss_headlines'') [])
     = (Inr (JStr (ustr ''F'')),
        [HttpPost (ustr ''http://localhost:8080/api/rss/preview'')
           (JDict [(ustr ''feed_url'', JStr (ustr ''http://f'')), (ustr ''rss_config'', JDict [])])
           [(ustr ''Content-Type'', ustr ''application/json'')] (JInt 30)])"
proof -
  let ?cfg = "sample_config (ustr ''rss'') (ustr ''http://f'') (ustr ''rss_headlines'') []"
  have u: "api_url ?cfg \<noteq> []" by (simp add: sample_config_def)
  have p1: "http_post sample_network rss_api_url (rss_payload ?cfg)
              [(ustr ''Content-Type'', ustr ''application/json'')] (timeout ?cfg)
            = Inl (Exn ConnectionError (ustr ''Connection refused''))
            \<and> exn_class (Exn ConnectionError (ustr ''Connection refused'')) = ConnectionError"
    by (simp add: sample_network_def)
  have p2: "http_post preview_network rss_api_url (rss_payload ?cfg)
              [(ustr ''Content-Type'', ustr ''application/json'')] (timeout ?cfg)
            = Inr (sample_response (JDict [(ustr ''feed'', JStr (ustr ''F''))]))
            \<and> raise_for_status (sample_response (JDict [(ustr ''feed'', JStr (ustr ''F''))])) = None
            \<and> json_body (sample_response (JDict [(ustr ''feed'', JStr (ustr ''F''))]))
                = Inr (JDict [(ustr ''feed'', JStr (ustr ''F''))])
            \<and> dict_get [(ustr ''feed'', JStr (ustr ''F'') :: unit json)] (ustr ''feed'') = Some (JStr (ustr ''F''))"
    by (simp add: preview_network_def sample_response_def dict_get_def)
  from fetch_rss_data_tiers [of ?cfg sample_network sample_builtins] u p1
  have 1: "fetch_rss_data sample_builtins sample_network ?cfg =
            (fst (fetch_rss_direct sample_network ?cfg),
             [rss_post ?cfg,
              HttpGet (api_url ?cfg) [(ustr ''User-Agent'', ustr ''E-Paper-Dashboard/1.0 RSS Reader'')]
                (timeout ?cfg)])"
    by blast
  from fetch_rss_data_tiers [of ?cfg preview_network sample_builtins] u p2
  have 2: "fetch_rss_data sample_builtins preview_network ?cfg = (Inr (JStr (ustr ''F'')), [rss_post ?cfg])"
    by blast
  have d: "fst (fetch_rss_direct sample_network ?cfg)
           = Inl (Exn PlainException (ustr ''RSS XML parsing failed: syntax error: line 1, column 0''))"
    by (simp add: fetch_rss_direct_def checked_xml_def sample_network_def sample_response_def
        sample_config_def ustr_def)
  have r: "rss_post ?cfg = HttpPost (ustr ''http://localhost:8080/api/rss/preview'')
         (JDict [(ustr ''feed_url'', JStr (ustr ''http://f'')), (ustr ''rss_config'', JDict [])])
         [(ustr ''Content-Type'', ustr ''application/json'')] (JInt 30)"
    by (simp add: rss_post_def rss_api_url_def rss_payload_def sample_config_def)
  have c: "api_url ?cfg = ustr ''http://f''" "timeout ?cfg = JInt 30"
    by (simp_all add: sample_config_def)
  show ?thesis
    unfolding 1 2 d r c by simp
qed

text \<open>
  C1. \<open>execute\<close> is a total function to text. When acquisition raises, or when it gives data and
  rendering the mapped data raises, the result is the error fragment for "Widget execution
  failed: " and the text of the exception; else it is the fragment of the template. The error
  fragment has one shape, and the message in it is escaped: it holds no angle bracket and no
  quote. (The mapping applier cannot raise, see C2.)
\<close>

theorem execute_never_raises:
  \<open>(\<forall>e. fst (fetch_data py net cfg) = Inl e \<longrightarrow>
          execute py clk net cfg = render_error (ustr ''Widget execution failed: '' @ exn_str e))
   \<and> (\<forall>data e. fst (fetch_data py net cfg) = Inr data
          \<and> render_template py clk (template_type cfg) (apply_data_mapping py (data_mapping cfg) data) = Inl e
        \<longrightarrow> execute py clk net cfg = render_error (ustr ''Widget execution failed: '' @ exn_str e))
   \<and> (\<forall>data html. fst (fetch_data py net cfg) = Inr data
          \<and> render_template py clk (template_type cfg) (apply_data_mapping py (data_mapping cfg) data) = Inr html
        \<longrightarrow> execute py clk net cfg = html)
   \<and> (\<forall>message.
         render_error message =
           ustr ''\<newline>        <div class="widget-error">''
           @ ustr ''\<newline>            <div class="error-icon">''
           @ [8218, 246, 8224, 212, 8719, 232]
           @ ustr ''</div>''
           @ ustr ''\<newline>            <div class="error-message">''
           @ html_escape message
           @ ustr ''</div>''
           @ ustr ''\<newline>        </div>''
           @ ustr ''\<newline>        ''
         \<and> (\<forall>c \<in> set (html_escape message). c \<notin> {60, 62, 34, 39}))\<close>
  by (auto simp: execute_def execute_body_def render_error_def Let_def
      simp del: append.simps dest: html_escape_no_markup)

theorem execute_never_raises_witness:
  "execute sample_builtins \<lparr>now_time = [], now_date = []\<rparr> sample_network
     (sample_config (ustr ''api'') [] (ustr ''key_value'') [])
   = render_error (ustr ''Widget execution failed: API URL is required'')
   \<and> execute sample_builtins \<lparr>now_time = [], now_date = []\<rparr> sample_network
       (sample_config (ustr ''api'') (ustr ''http://a'') (ustr ''rss_feed_info'') [(ustr ''items'', ustr ''n'')])
     = render_error (ustr ''Widget execution failed: object of type '' @ [39] @ ustr ''int'' @ [39]
         @ ustr '' has no len()'')
   \<and> execute sample_builtins \<lparr>now_time = [], now_date = []\<rparr> sample_network
       (sample_config (ustr ''api'') (ustr ''http://a'') (ustr ''key_value'') [(ustr ''value'', ustr ''n'')])
     = render_key_value sample_builtins [(ustr ''value'', JInt 5)]
   \<and> set (html_escape (ustr ''<b>'')) \<inter> {60, 62, 34, 39} = {}"
proof -
  let ?clk = "\<lparr>now_time = [], now_date = []\<rparr>"
  let ?c1 = "sample_config (ustr ''api'') [] (ustr ''key_value'') []"
  let ?c2 = "sample_config (ustr ''api'') (ustr ''http://a'') (ustr ''rss_feed_info'') [(ustr ''items'', ustr ''n'')]"
  let ?c3 = "sample_config (ustr ''api'') (ustr ''http://a'') (ustr ''key_value'') [(ustr ''value'', ustr ''n'')]"
  have f1: "fst (fetch_data sample_builtins sample_network ?c1)
            = Inl (Exn ValueError (ustr ''API URL is required''))"
    by (simp add: fetch_data_def fetch_api_data_def sample_config_def)
  have f2: "fst (fetch_data sample_builtins sample_network ?c2) = Inr (JDict [(ustr ''n'', JInt 5)])"
    by (simp add: fetch_data_def fetch_api_data_def sample_config_def sample_network_def
        sample_response_def checked_json_def Let_def)
  have f3: "fst (fetch_data sample_builtins sample_network ?c3) = Inr (JDict [(ustr ''n'', JInt 5)])"
    by (simp add: fetch_data_def fetch_api_data_def sample_config_def sample_network_def
        sample_response_def checked_json_def Let_def)
  have x: "extract_json_path sample_builtins (JDict [(ustr ''n'', JInt 5)]) (ustr ''n'') = Inr (JInt 5)"
    by (simp add: extract_json_path_def ustr_def uc_def json_has_key_def dict_has_def
        subscript_key_def dict_get_def)
  have m2: "apply_data_mapping sample_builtins (data_mapping ?c2) (JDict [(ustr ''n'', JInt 5)])
            = [(ustr ''items'', JInt 5)]"
    by (simp add: apply_data_mapping_def sample_config_def x)
  have m3: "apply_data_mapping sample_builtins (data_mapping ?c3) (JDict [(ustr ''n'', JInt 5)])
            = [(ustr ''value'', JInt 5)]"
    by (simp add: apply_data_mapping_def sample_config_def x)
  have r2: "render_template sample_builtins ?clk (template_type ?c2)
              (apply_data_mapping sample_builtins (data_mapping ?c2) (JDict [(ustr ''n'', JInt 5)]))
            = Inl (Exn TypeError (ustr ''object of type '' @ [39] @ ustr ''int'' @ [39] @ ustr '' has no len()''))"
    unfolding m2
    by (simp add: sample_config_def render_template_def render_rss_feed_info_def Let_def get_or_def
        dict_get_def py_len_def type_name_def)
  have r3: "render_template sample_builtins ?clk (template_type ?c3)
              (apply_data_mapping sample_builtins (data_mapping ?c3) (JDict [(ustr ''n'', JInt 5)]))
            = Inr (render_key_value sample_builtins [(ustr ''value'', JInt 5)])"
    unfolding m3 by (simp add: sample_config_def render_template_def)
  note main = execute_never_raises [of sample_builtins sample_network _ ?clk]
  from main [of ?c1, THEN conjunct1, rule_format, OF f1]
  have 1: "execute sample_builtins ?clk sample_network ?c1
           = render_error (ustr ''Widget execution failed: '' @ exn_str (Exn ValueError (ustr ''API URL is required'')))"
    .
  from main [of ?c2, THEN conjunct2, THEN conjunct1, rule_format, OF conjI [OF f2 r2]]
  have 2: "execute sample_builtins ?clk sample_network ?c2
           = render_error (ustr ''Widget execution failed: '' @ exn_str (Exn TypeError
               (ustr ''object of type '' @ [39] @ ustr ''int'' @ [39] @ ustr '' has no len()'')))"
    .
  from main [of ?c3, THEN conjunct2, THEN conjunct2, THEN conjunct1, rule_format, OF conjI [OF f3 r3]]
  have 3: "execute sample_builtins ?clk sample_network ?c3
           = render_key_value sample_builtins [(ustr ''value'', JInt 5)]"
    .
  from main [of ?c1, THEN conjunct2, THEN conjunct2, THEN conjunct2, rule_format, of "ustr ''<b>''", THEN conjunct2]
  have 4: "\<forall>c \<in> set (html_escape (ustr ''<b>'')). c \<notin> {60, 62, 34, 39}"
    by blast
  have e: "ustr ''Widget execution failed: '' @ ustr ''API URL is required''
           = ustr ''Widget execution failed: API URL is required''"
    "ustr ''Widget execution failed: '' @ ustr ''object of type '' = ustr ''Widget execution failed: object of type ''"
    by (simp_all add: ustr_def)
  have e1: "exn_str (Exn ValueError (ustr ''API URL is required'')) = ustr ''API URL is required''"
    by simp
  show ?thesis
    unfolding 1 2 3 exn_str.simps e [symmetric] append_assoc using 4 by (intro conjI refl) blast
qed

end
